theory Spec2Isabelle
  imports Complex_Main "HOL-Library.Multiset"
begin

section \<open>Values held by the store\<close>

text \<open>
  The store of \<^verbatim>\<open>src/services/database.js\<close> is a Dexie database over IndexedDB.
  Primary keys are JavaScript values: numbers or strings. A key is tested for truthiness
  by the service (\<^verbatim>\<open>if (job.id)\<close>), and IndexedDB keeps the rows of a table in the
  order of their primary keys (every number before every string, strings by code unit).
\<close>

datatype key = NumKey nat | StrKey string

fun truthy_key :: "key \<Rightarrow> bool" where
  "truthy_key (NumKey n) = (n \<noteq> 0)"
| "truthy_key (StrKey s) = (s \<noteq> [])"

fun str_lt :: "string \<Rightarrow> string \<Rightarrow> bool" where
  "str_lt [] [] = False"
| "str_lt [] (y # ys) = True"
| "str_lt (x # xs) [] = False"
| "str_lt (x # xs) (y # ys) =
     ((of_char x :: nat) < of_char y \<or> (x = y \<and> str_lt xs ys))"

fun key_lt :: "key \<Rightarrow> key \<Rightarrow> bool" where
  "key_lt (NumKey m) (NumKey n) = (m < n)"
| "key_lt (NumKey m) (StrKey t) = True"
| "key_lt (StrKey s) (NumKey n) = False"
| "key_lt (StrKey s) (StrKey t) = str_lt s t"

text \<open>
  \<^verbatim>\<open>new Date().toISOString()\<close> reads the clock. The reading is a parameter \<open>now\<close> of
  every operation that takes one.
\<close>

type_synonym timestamp = nat

text \<open>
  The status of a job, the stage of a candidate (also the status of a job application) and
  the type of a timeline event are the closed sets of the data model, the constants
  \<^verbatim>\<open>JOB_STATUS\<close> and \<^verbatim>\<open>CANDIDATE_STAGES\<close> of \<^verbatim>\<open>../types\<close>.
\<close>

datatype job_status = active | archived

datatype stage = applied | screen | tech | offer | hired | rejected

datatype event_type =
  stage_change | note_added | assessment_completed | job_application | status_change

text \<open>
  What an operation can throw: \<^verbatim>\<open>new Error(message)\<close> of the service itself, and the
  errors of the storage engine (a key that already exists on \<^verbatim>\<open>add\<close>, a query on a key
  path that the schema does not index, and any failure of the underlying storage).
\<close>

datatype error =
  Error string
| ConstraintError
| SchemaError string
| StorageError

section \<open>The schema declared by the constructor of TalentFlowDB\<close>

datatype table =
  Jobs | Candidates | Assessments | TimelineEvents | Notes | AssessmentResponses
| JobApplications | Settings

text \<open>
  \<^verbatim>\<open>this.version(1).stores({...})\<close>: for every table the primary key \<^verbatim>\<open>++id\<close> and then
  the indexed key paths, as the source lists them.
\<close>

fun stores_v1 :: "table \<Rightarrow> string list" where
  "stores_v1 Jobs = [''title'', ''slug'', ''status'', ''order'', ''createdAt'', ''updatedAt'']"
| "stores_v1 Candidates = [''name'', ''email'', ''stage'', ''jobId'', ''createdAt'', ''updatedAt'']"
| "stores_v1 Assessments = [''jobId'', ''title'', ''createdAt'', ''updatedAt'']"
| "stores_v1 TimelineEvents = [''candidateId'', ''type'', ''createdAt'']"
| "stores_v1 Notes = [''candidateId'', ''createdAt'', ''updatedAt'']"
| "stores_v1 AssessmentResponses = [''candidateId'', ''assessmentId'', ''createdAt'']"
| "stores_v1 JobApplications = [''candidateId'', ''jobId'', ''status'', ''appliedAt'', ''updatedAt'']"
| "stores_v1 Settings = [''key'']"

text \<open>
  The constructor registers a \<^verbatim>\<open>creating\<close> and an \<^verbatim>\<open>updating\<close> hook on four tables:
  jobs, candidates, assessments and notes.
\<close>

fun hooked :: "table \<Rightarrow> bool" where
  "hooked Jobs = True"
| "hooked Candidates = True"
| "hooked Assessments = True"
| "hooked Notes = True"
| "hooked TimelineEvents = False"
| "hooked AssessmentResponses = False"
| "hooked JobApplications = False"
| "hooked Settings = False"

section \<open>Rows\<close>

text \<open>
  Every stored object carries its primary key \<^verbatim>\<open>id\<close>; \<^verbatim>\<open>createdAt\<close> and \<^verbatim>\<open>updatedAt\<close>
  are absent (\<open>None\<close>) until something writes them. The columns that no operation of the
  service reads (requirements, benefits, location, salary, type, department, phone,
  coverLetter, sections, answers) are carried unchanged by every operation and are left out.
\<close>

record row =
  ident :: key
  createdAt :: "timestamp option"
  updatedAt :: "timestamp option"

record job = row +
  title :: string
  slug :: string
  description :: "string option"
  tags :: "string list"
  status :: job_status
  order :: int

record candidate = row +
  name :: string
  email :: string
  stage :: stage
  c_jobId :: key

record assessment = row +
  a_jobId :: key
  a_title :: string

datatype metadata =
  MdStage stage
| MdStageChange "stage option" stage
| MdApplication key key "stage option"
| MdStatusChange key key stage stage string

record timeline_event = row +
  ev_candidateId :: key
  ev_type :: event_type
  ev_title :: string
  ev_description :: string
  ev_metadata :: metadata

record candidate_note = row +
  n_candidateId :: key
  content :: string

record assessment_response = row +
  ar_candidateId :: key
  ar_assessmentId :: key

record job_application = row +
  ja_candidateId :: key
  ja_jobId :: key
  jobTitle :: string
  ja_status :: stage
  ja_notes :: string
  appliedAt :: "timestamp option"

section \<open>The storage engine\<close>

text \<open>
  A table is the list of its rows in primary-key order. \<open>tbl_insert\<close> stores a row under
  its key, replacing the row that had the key.
\<close>

fun insert_sorted :: "'a row_scheme \<Rightarrow> 'a row_scheme list \<Rightarrow> 'a row_scheme list" where
  "insert_sorted r [] = [r]"
| "insert_sorted r (x # xs) =
     (if key_lt (ident r) (ident x) then r # x # xs else x # insert_sorted r xs)"

definition tbl_get :: "key \<Rightarrow> 'a row_scheme list \<Rightarrow> 'a row_scheme option" where
  "tbl_get k rows = find (\<lambda>r. ident r = k) rows"

definition tbl_delete :: "key \<Rightarrow> 'a row_scheme list \<Rightarrow> 'a row_scheme list" where
  "tbl_delete k rows = filter (\<lambda>r. ident r \<noteq> k) rows"

definition tbl_insert :: "'a row_scheme \<Rightarrow> 'a row_scheme list \<Rightarrow> 'a row_scheme list" where
  "tbl_insert r rows = insert_sorted r (tbl_delete (ident r) rows)"

text \<open>
  The hooks of the constructor; \<open>h\<close> says whether the table has them. The \<^verbatim>\<open>creating\<close>
  hook assigns both timestamps on the object about to be stored, and the engine stores the
  object so changed: the object the caller passed carries the timestamps afterwards.
\<close>

definition creating_hook :: "bool \<Rightarrow> timestamp \<Rightarrow> 'a row_scheme \<Rightarrow> 'a row_scheme" where
  "creating_hook h now obj =
     (if h then obj\<lparr>createdAt := Some now, updatedAt := Some now\<rparr> else obj)"

text \<open>
  The \<^verbatim>\<open>updating\<close> hook assigns \<^verbatim>\<open>updatedAt\<close> on the \<^verbatim>\<open>modifications\<close> it is handed and
  returns nothing. The engine hands the hook a difference object of its own and merges
  into the write only what the hook returns. The first component below is the object the
  hook was handed, after the hook ran; the second is the value the hook returns, the
  additional modifications, of which there are none.
\<close>

definition updating_hook ::
  "bool \<Rightarrow> timestamp \<Rightarrow> ('a row_scheme \<Rightarrow> 'a row_scheme)
     \<Rightarrow> ('a row_scheme \<Rightarrow> 'a row_scheme) \<times> ('a row_scheme \<Rightarrow> 'a row_scheme) option" where
  "updating_hook h now modifications =
     ((if h then (\<lambda>r. (modifications r)\<lparr>updatedAt := Some now\<rparr>) else modifications), None)"

definition merge_returned ::
  "('a row_scheme \<Rightarrow> 'a row_scheme) \<times> ('a row_scheme \<Rightarrow> 'a row_scheme) option
     \<Rightarrow> 'a row_scheme \<Rightarrow> 'a row_scheme" where
  "merge_returned hook_result r =
     (case snd hook_result of None \<Rightarrow> r | Some additional \<Rightarrow> additional r)"

text \<open>
  \<^verbatim>\<open>table.add(obj)\<close> fails when the key is taken; \<^verbatim>\<open>table.put(obj)\<close> replaces the row
  that has the key (an update, for the hooks) or stores a new one. Both give back, with
  the new rows, the object as the hooks left it, which is the object the caller holds.
  \<^verbatim>\<open>table.update(key, modifications)\<close> changes the row that has the key and does nothing
  when there is none. The modifications are a function on rows.
\<close>

definition tbl_add ::
  "bool \<Rightarrow> timestamp \<Rightarrow> 'a row_scheme \<Rightarrow> 'a row_scheme list
     \<Rightarrow> error + 'a row_scheme \<times> 'a row_scheme list" where
  "tbl_add h now obj rows =
     (case tbl_get (ident obj) rows of
        Some _ \<Rightarrow> Inl ConstraintError
      | None \<Rightarrow> Inr (creating_hook h now obj, tbl_insert (creating_hook h now obj) rows))"

definition tbl_put ::
  "bool \<Rightarrow> timestamp \<Rightarrow> 'a row_scheme \<Rightarrow> 'a row_scheme list
     \<Rightarrow> 'a row_scheme \<times> 'a row_scheme list" where
  "tbl_put h now obj rows =
     (case tbl_get (ident obj) rows of
        Some _ \<Rightarrow>
          (obj, tbl_insert (merge_returned (updating_hook h now (\<lambda>_. obj)) obj) rows)
      | None \<Rightarrow> (creating_hook h now obj, tbl_insert (creating_hook h now obj) rows))"

definition tbl_update ::
  "bool \<Rightarrow> timestamp \<Rightarrow> key \<Rightarrow> ('a row_scheme \<Rightarrow> 'a row_scheme) \<Rightarrow> 'a row_scheme list
     \<Rightarrow> 'a row_scheme list" where
  "tbl_update h now k modifications rows =
     map (\<lambda>r. if ident r = k
              then merge_returned (updating_hook h now modifications) (modifications r)
              else r) rows"

text \<open>The database: the declared schema and the seven tables the service uses.\<close>

record db =
  schema :: "table \<Rightarrow> string list"
  jobs :: "job list"
  candidates :: "candidate list"
  assessments :: "assessment list"
  timelineEvents :: "timeline_event list"
  notes_table :: "candidate_note list"
  assessmentResponses :: "assessment_response list"
  jobApplications :: "job_application list"

definition TalentFlowDB :: db where
  "TalentFlowDB =
     \<lparr>schema = stores_v1, jobs = [], candidates = [], assessments = [], timelineEvents = [],
      notes_table = [], assessmentResponses = [], jobApplications = []\<rparr>"

text \<open>
  \<^verbatim>\<open>table.where(keyPath)\<close> and \<^verbatim>\<open>table.orderBy(keyPath)\<close> need the key path to be
  indexed by the schema; the query is rejected with a SchemaError otherwise.
\<close>

definition indexed :: "db \<Rightarrow> table \<Rightarrow> string \<Rightarrow> bool" where
  "indexed d t keyPath = (keyPath \<in> set (schema d t))"

definition where_first ::
  "db \<Rightarrow> table \<Rightarrow> string \<Rightarrow> ('r \<Rightarrow> bool) \<Rightarrow> 'r list \<Rightarrow> error + 'r option" where
  "where_first d t keyPath p rows =
     (if indexed d t keyPath then Inr (find p rows) else Inl (SchemaError keyPath))"

definition where_delete ::
  "db \<Rightarrow> table \<Rightarrow> string \<Rightarrow> ('r \<Rightarrow> bool) \<Rightarrow> 'r list \<Rightarrow> error + 'r list" where
  "where_delete d t keyPath p rows =
     (if indexed d t keyPath then Inr (filter (\<lambda>r. \<not> p r) rows) else Inl (SchemaError keyPath))"

text \<open>
  \<^verbatim>\<open>db.transaction('rw', ..., body)\<close>: when the body throws, every write it made is
  rolled back.
\<close>

definition transaction :: "(db \<Rightarrow> (error + 'r) \<times> db) \<Rightarrow> db \<Rightarrow> (error + 'r) \<times> db" where
  "transaction body d =
     (case body d of (Inl e, _) \<Rightarrow> (Inl e, d) | (Inr r, d') \<Rightarrow> (Inr r, d'))"

section \<open>The factories of \<^verbatim>\<open>../types\<close>\<close>

text \<open>
  What a caller passes to a \<^verbatim>\<open>create*\<close> operation: an object in which any property may
  be missing.
\<close>

record job_data =
  jd_id :: "key option"
  jd_title :: "string option"
  jd_slug :: "string option"
  jd_description :: "string option"
  jd_tags :: "string list option"
  jd_status :: "job_status option"
  jd_order :: "int option"

record candidate_data =
  cd_id :: "key option"
  cd_name :: "string option"
  cd_email :: "string option"
  cd_stage :: "stage option"
  cd_jobId :: "key option"

record event_data =
  ed_id :: "key option"
  ed_candidateId :: key
  ed_type :: event_type
  ed_title :: string
  ed_description :: string
  ed_metadata :: metadata

record application_data =
  ad_id :: "key option"
  ad_candidateId :: key
  ad_jobId :: key
  ad_jobTitle :: string
  ad_status :: "stage option"
  ad_notes :: "string option"
  ad_appliedAt :: "timestamp option"

definition or_else :: "'a option \<Rightarrow> 'a \<Rightarrow> 'a" where
  "or_else v dflt = (case v of Some x \<Rightarrow> x | None \<Rightarrow> dflt)"

text \<open>
  The four factories below belong to the module \<^verbatim>\<open>../types\<close>, which is not among the
  sources. \<open>gen\<close> is the identifier a factory generates when the caller gave none.
\<close>

text \<open>
  Modelled from the spec: the factory \<^verbatim>\<open>createJob\<close> of \<^verbatim>\<open>../types\<close>, missing from the
  sources. It returns a fully populated record: an omitted property gets its default (the
  empty string or list, the first value of the enum), the identifier is the caller's when
  there is one and a generated one otherwise, and no timestamp is written.
\<close>

definition createJob_factory :: "key \<Rightarrow> job_data \<Rightarrow> job" where
  "createJob_factory gen d =
     \<lparr>ident = or_else (jd_id d) gen, createdAt = None, updatedAt = None,
      title = or_else (jd_title d) [], slug = or_else (jd_slug d) [],
      description = Some (or_else (jd_description d) []), tags = or_else (jd_tags d) [],
      status = or_else (jd_status d) active, order = or_else (jd_order d) 0\<rparr>"

text \<open>
  Modelled from the spec: the factory \<^verbatim>\<open>createCandidate\<close> of \<^verbatim>\<open>../types\<close>, missing from
  the sources; defaults, identifier and timestamps as for \<^verbatim>\<open>createJob\<close>.
\<close>

definition createCandidate_factory :: "key \<Rightarrow> candidate_data \<Rightarrow> candidate" where
  "createCandidate_factory gen d =
     \<lparr>ident = or_else (cd_id d) gen, createdAt = None, updatedAt = None,
      name = or_else (cd_name d) [], email = or_else (cd_email d) [],
      stage = or_else (cd_stage d) applied, c_jobId = or_else (cd_jobId d) (StrKey [])\<rparr>"

text \<open>
  Modelled from the spec: the factory \<^verbatim>\<open>createTimelineEvent\<close> of \<^verbatim>\<open>../types\<close>, missing
  from the sources; it passes on what it is given and settles the identifier.
\<close>

definition createTimelineEvent_factory :: "key \<Rightarrow> event_data \<Rightarrow> timeline_event" where
  "createTimelineEvent_factory gen d =
     \<lparr>ident = or_else (ed_id d) gen, createdAt = None, updatedAt = None,
      ev_candidateId = ed_candidateId d, ev_type = ed_type d, ev_title = ed_title d,
      ev_description = ed_description d, ev_metadata = ed_metadata d\<rparr>"

text \<open>
  Modelled from the spec: the factory \<^verbatim>\<open>createJobApplication\<close> of \<^verbatim>\<open>../types\<close>, missing
  from the sources; the default status is \<open>applied\<close>, the default notes are empty.
\<close>

definition createJobApplication_factory :: "key \<Rightarrow> application_data \<Rightarrow> job_application" where
  "createJobApplication_factory gen d =
     \<lparr>ident = or_else (ad_id d) gen, createdAt = None, updatedAt = None,
      ja_candidateId = ad_candidateId d, ja_jobId = ad_jobId d, jobTitle = ad_jobTitle d,
      ja_status = or_else (ad_status d) applied, ja_notes = or_else (ad_notes d) [],
      appliedAt = ad_appliedAt d\<rparr>"

section \<open>The service: candidates and their timeline\<close>

text \<open>
  Every operation of \<^verbatim>\<open>DatabaseService\<close> returns what the promise settles with (\<open>Inl\<close>
  the error thrown, \<open>Inr\<close> the value) together with the database it leaves behind: the
  service does not undo the writes made before an error.
\<close>

fun stage_str :: "stage \<Rightarrow> string" where
  "stage_str applied = ''applied''"
| "stage_str screen = ''screen''"
| "stage_str tech = ''tech''"
| "stage_str offer = ''offer''"
| "stage_str hired = ''hired''"
| "stage_str rejected = ''rejected''"

definition createTimelineEvent ::
  "timestamp \<Rightarrow> key \<Rightarrow> event_data \<Rightarrow> db \<Rightarrow> (error + timeline_event) \<times> db" where
  "createTimelineEvent now gen eventData d =
     (let event = createTimelineEvent_factory gen eventData in
      case tbl_add (hooked TimelineEvents) now event (timelineEvents d) of
        Inl e \<Rightarrow> (Inl e, d)
      | Inr (event', rows) \<Rightarrow> (Inr event', d\<lparr>timelineEvents := rows\<rparr>))"

text \<open>
  \<^verbatim>\<open>createCandidate\<close>: \<open>gen\<close> is the identifier generated for the candidate, \<open>gen_ev\<close>
  the one generated for its timeline event. The value returned is the object the factory
  made, as the storage left it.
\<close>

definition createCandidate ::
  "timestamp \<Rightarrow> key \<Rightarrow> key \<Rightarrow> candidate_data \<Rightarrow> db \<Rightarrow> (error + candidate) \<times> db" where
  "createCandidate now gen gen_ev candidateData d =
     (let candidate = createCandidate_factory gen candidateData in
      case (if truthy_key (ident candidate)
            then Inr (tbl_put (hooked Candidates) now candidate (candidates d))
            else tbl_add (hooked Candidates) now candidate (candidates d)) of
        Inl e \<Rightarrow> (Inl e, d)
      | Inr (candidate', rows) \<Rightarrow>
          (case createTimelineEvent now gen_ev
                  \<lparr>ed_id = None, ed_candidateId = ident candidate', ed_type = stage_change,
                   ed_title = ''Application Submitted'',
                   ed_description = ''Candidate applied for the position'',
                   ed_metadata = MdStage (stage candidate')\<rparr>
                  (d\<lparr>candidates := rows\<rparr>) of
             (Inl e, d') \<Rightarrow> (Inl e, d')
           | (Inr _, d') \<Rightarrow> (Inr candidate', d')))"

record candidate_patch =
  cp_name :: "string option"
  cp_email :: "string option"
  cp_stage :: "stage option"
  cp_jobId :: "key option"

definition apply_candidate_patch :: "candidate_patch \<Rightarrow> candidate \<Rightarrow> candidate" where
  "apply_candidate_patch u c =
     c\<lparr>name := or_else (cp_name u) (name c), email := or_else (cp_email u) (email c),
       stage := or_else (cp_stage u) (stage c), c_jobId := or_else (cp_jobId u) (c_jobId c)\<rparr>"

definition updateCandidate ::
  "timestamp \<Rightarrow> key \<Rightarrow> key \<Rightarrow> candidate_patch \<Rightarrow> db \<Rightarrow> (error + candidate option) \<times> db" where
  "updateCandidate now gen_ev cid updates d =
     (let oldCandidate = tbl_get cid (candidates d);
          d1 = d\<lparr>candidates :=
                   tbl_update (hooked Candidates) now cid (apply_candidate_patch updates)
                     (candidates d)\<rparr>
      in case cp_stage updates of
           None \<Rightarrow> (Inr (tbl_get cid (candidates d1)), d1)
         | Some s \<Rightarrow>
             if Some s \<noteq> map_option stage oldCandidate
             then (case createTimelineEvent now gen_ev
                          \<lparr>ed_id = None, ed_candidateId = cid, ed_type = stage_change,
                           ed_title = ''Stage Changed to '' @ stage_str s,
                           ed_description =
                             ''Candidate moved from '' @
                             (case oldCandidate of None \<Rightarrow> ''undefined''
                              | Some c \<Rightarrow> stage_str (stage c)) @
                             '' to '' @ stage_str s,
                           ed_metadata = MdStageChange (map_option stage oldCandidate) s\<rparr>
                          d1 of
                     (Inl e, d2) \<Rightarrow> (Inl e, d2)
                   | (Inr _, d2) \<Rightarrow> (Inr (tbl_get cid (candidates d2)), d2))
             else (Inr (tbl_get cid (candidates d1)), d1))"

text \<open>
  The cascades are sequences of separate requests to the storage engine. \<open>flt = Some i\<close>
  says that request number \<open>i\<close> of the call (counted from 0) is rejected by the storage
  with a StorageError; \<open>None\<close> that the storage serves them all.
\<close>

definition deleteCandidate :: "nat option \<Rightarrow> key \<Rightarrow> db \<Rightarrow> (error + unit) \<times> db" where
  "deleteCandidate flt cid d =
     (if flt = Some 0 then (Inl StorageError, d) else
     (let d1 = d\<lparr>candidates := tbl_delete cid (candidates d)\<rparr> in
     (if flt = Some 1 then (Inl StorageError, d1) else
     (case where_delete d1 TimelineEvents ''candidateId'' (\<lambda>ev. ev_candidateId ev = cid)
             (timelineEvents d1) of
        Inl e \<Rightarrow> (Inl e, d1)
      | Inr evs \<Rightarrow>
     (let d2 = d1\<lparr>timelineEvents := evs\<rparr> in
     (if flt = Some 2 then (Inl StorageError, d2) else
     (case where_delete d2 Notes ''candidateId'' (\<lambda>n. n_candidateId n = cid)
             (notes_table d2) of
        Inl e \<Rightarrow> (Inl e, d2)
      | Inr ns \<Rightarrow>
     (let d3 = d2\<lparr>notes_table := ns\<rparr> in
     (if flt = Some 3 then (Inl StorageError, d3) else
     (case where_delete d3 AssessmentResponses ''candidateId''
             (\<lambda>r. ar_candidateId r = cid) (assessmentResponses d3) of
        Inl e \<Rightarrow> (Inl e, d3)
      | Inr rs \<Rightarrow> (Inr (), d3\<lparr>assessmentResponses := rs\<rparr>)))))))))))"

definition deleteJob :: "nat option \<Rightarrow> key \<Rightarrow> db \<Rightarrow> (error + unit) \<times> db" where
  "deleteJob flt jid d =
     (if flt = Some 0 then (Inl StorageError, d) else
     (let d1 = d\<lparr>jobs := tbl_delete jid (jobs d)\<rparr> in
     (if flt = Some 1 then (Inl StorageError, d1) else
     (case where_delete d1 Candidates ''jobId'' (\<lambda>c. c_jobId c = jid) (candidates d1) of
        Inl e \<Rightarrow> (Inl e, d1)
      | Inr cs \<Rightarrow>
     (let d2 = d1\<lparr>candidates := cs\<rparr> in
     (if flt = Some 2 then (Inl StorageError, d2) else
     (case where_delete d2 Assessments ''jobId'' (\<lambda>a. a_jobId a = jid) (assessments d2) of
        Inl e \<Rightarrow> (Inl e, d2)
      | Inr as \<Rightarrow> (Inr (), d2\<lparr>assessments := as\<rparr>))))))))"

section \<open>The service: job applications\<close>

definition createJobApplication ::
  "timestamp \<Rightarrow> key \<Rightarrow> key \<Rightarrow> application_data \<Rightarrow> db \<Rightarrow> (error + job_application) \<times> db" where
  "createJobApplication now gen gen_ev applicationData d =
     (let application = createJobApplication_factory gen applicationData in
      case tbl_add (hooked JobApplications) now application (jobApplications d) of
        Inl e \<Rightarrow> (Inl e, d)
      | Inr (application', rows) \<Rightarrow>
          (case createTimelineEvent now gen_ev
                  \<lparr>ed_id = None, ed_candidateId = ad_candidateId applicationData,
                   ed_type = job_application,
                   ed_title = ''Applied for '' @ ad_jobTitle applicationData,
                   ed_description =
                     ''Candidate applied for the '' @ ad_jobTitle applicationData @ '' position'',
                   ed_metadata =
                     MdApplication (ad_jobId applicationData) (ident application')
                       (ad_status applicationData)\<rparr>
                  (d\<lparr>jobApplications := rows\<rparr>) of
             (Inl e, d') \<Rightarrow> (Inl e, d')
           | (Inr _, d') \<Rightarrow> (Inr application', d')))"

definition applyCandidateToJob ::
  "timestamp \<Rightarrow> key \<Rightarrow> key \<Rightarrow> key \<Rightarrow> key \<Rightarrow> db \<Rightarrow> (error + job_application) \<times> db" where
  "applyCandidateToJob now gen gen_ev candidateId jobId d =
     (case tbl_get jobId (jobs d) of
        None \<Rightarrow> (Inl (Error ''Job not found''), d)
      | Some job \<Rightarrow>
          (case where_first d JobApplications ''[candidateId+jobId]''
                  (\<lambda>a. ja_candidateId a = candidateId \<and> ja_jobId a = jobId)
                  (jobApplications d) of
             Inl e \<Rightarrow> (Inl e, d)
           | Inr (Some existingApplication) \<Rightarrow>
               (Inl (Error ''Candidate has already applied to this job''), d)
           | Inr None \<Rightarrow>
               createJobApplication now gen gen_ev
                 \<lparr>ad_id = None, ad_candidateId = candidateId, ad_jobId = jobId,
                  ad_jobTitle = title job, ad_status = Some applied, ad_notes = None,
                  ad_appliedAt = None\<rparr> d))"





section \<open>The service: jobs\<close>

subsection \<open>Strings\<close>

text \<open>
  Strings are lists of 8-bit characters, the code points below 256. \<^verbatim>\<open>toLowerCase\<close>
  maps \<^verbatim>\<open>A-Z\<close> to \<^verbatim>\<open>a-z\<close> and the capital letters 192 to 222 of Latin-1, the
  multiplication sign 215 apart, to the small letters 32 above them; \<^verbatim>\<open>\s\<close> of a
  regular expression matches tab, line feed, vertical tab, form feed, carriage return,
  space and the no-break space.
\<close>

definition lower_char :: "char \<Rightarrow> char" where
  "lower_char c =
     (let n = (of_char c :: nat)
      in if (65 \<le> n \<and> n \<le> 90) \<or> (192 \<le> n \<and> n \<le> 222 \<and> n \<noteq> 215)
         then char_of (n + 32) else c)"

definition toLowerCase :: "string \<Rightarrow> string" where
  "toLowerCase s = map lower_char s"

definition is_space :: "char \<Rightarrow> bool" where
  "is_space c = ((of_char c :: nat) \<in> {9, 10, 11, 12, 13, 32, 160})"

definition is_digit :: "char \<Rightarrow> bool" where
  "is_digit c = (48 \<le> (of_char c :: nat) \<and> (of_char c :: nat) \<le> 57)"

definition slug_char :: "char \<Rightarrow> bool" where
  "slug_char c =
     ((97 \<le> (of_char c :: nat) \<and> (of_char c :: nat) \<le> 122) \<or> is_digit c \<or> is_space c
      \<or> c = CHR ''-'')"

text \<open>
  \<open>squeeze p False s\<close> replaces every maximal run of characters that satisfy \<open>p\<close> by one
  hyphen: \<^verbatim>\<open>replace(/\s+/g, '-')\<close> and \<^verbatim>\<open>replace(/-+/g, '-')\<close>.
\<close>

fun squeeze :: "(char \<Rightarrow> bool) \<Rightarrow> bool \<Rightarrow> string \<Rightarrow> string" where
  "squeeze p in_run [] = []"
| "squeeze p in_run (c # cs) =
     (if p c then (if in_run then squeeze p True cs else CHR ''-'' # squeeze p True cs)
      else c # squeeze p False cs)"

text \<open>\<^verbatim>\<open>trim\<close> takes no argument: the \<^verbatim>\<open>'-'\<close> passed to it is ignored and white space is removed.\<close>

definition trim :: "string \<Rightarrow> string" where
  "trim s = rev (dropWhile is_space (rev (dropWhile is_space s)))"

definition generateSlug :: "string \<Rightarrow> string" where
  "generateSlug t =
     trim (squeeze (\<lambda>c. c = CHR ''-'') False
             (squeeze is_space False (filter slug_char (toLowerCase t))))"

fun includes_str :: "string \<Rightarrow> string \<Rightarrow> bool" where
  "includes_str [] needle = (needle = [])"
| "includes_str (c # cs) needle =
     (take (length needle) (c # cs) = needle \<or> includes_str cs needle)"

text \<open>The decimal digits of a number, as a template literal prints it.\<close>

fun dec :: "nat \<Rightarrow> string" where
  "dec n = (if n < 10 then [char_of (48 + n)] else dec (n div 10) @ [char_of (48 + n mod 10)])"

declare dec.simps [simp del]

definition truthy_str :: "string option \<Rightarrow> bool" where
  "truthy_str v = (case v of None \<Rightarrow> False | Some s \<Rightarrow> s \<noteq> [])"

subsection \<open>Queries\<close>

record job_filters =
  f_status :: "job_status option"
  f_tags :: "string list option"
  f_search :: "string option"
  f_page :: "nat option"
  f_pageSize :: "nat option"

text \<open>What \<^verbatim>\<open>getJobs\<close> returns: an array of jobs, or an object with named properties.\<close>

datatype jsval =
  JNum nat
| JBool bool
| JArray "job list"
| JObject "(string \<times> jsval) list"

definition orderBy_order :: "db \<Rightarrow> error + job list" where
  "orderBy_order d =
     (if indexed d Jobs ''order'' then Inr (sort_key order (jobs d))
      else Inl (SchemaError ''order''))"

definition search_match :: "string \<Rightarrow> job \<Rightarrow> bool" where
  "search_match searchTerm j =
     (includes_str (toLowerCase (title j)) searchTerm
      \<or> (case description j of None \<Rightarrow> False
          | Some t \<Rightarrow> includes_str (toLowerCase t) searchTerm)
      \<or> list_ex (\<lambda>tag. includes_str (toLowerCase tag) searchTerm) (tags j))"

definition apply_filters :: "job_filters \<Rightarrow> job list \<Rightarrow> job list" where
  "apply_filters filters query =
     (let q1 = (case f_status filters of None \<Rightarrow> query
                | Some st \<Rightarrow> filter (\<lambda>j. status j = st) query);
          q2 = (case f_tags filters of None \<Rightarrow> q1
                | Some ts \<Rightarrow>
                    if 0 < length ts
                    then filter (\<lambda>j. list_ex (\<lambda>tag. tag \<in> set (tags j)) ts) q1 else q1);
          q3 = (case f_search filters of None \<Rightarrow> q2
                | Some s \<Rightarrow>
                    if s \<noteq> [] then filter (search_match (toLowerCase s)) q2 else q2)
      in q3)"

definition paginated :: "job_filters \<Rightarrow> bool" where
  "paginated filters =
     (case (f_page filters, f_pageSize filters) of
        (Some p, Some ps) \<Rightarrow> p \<noteq> 0 \<and> ps \<noteq> 0
      | _ \<Rightarrow> False)"

definition getJobs :: "job_filters \<Rightarrow> db \<Rightarrow> error + jsval" where
  "getJobs filters d =
     (case orderBy_order d of
        Inl e \<Rightarrow> Inl e
      | Inr query \<Rightarrow>
          (let js = apply_filters filters query in
           if paginated filters
           then (let page = or_else (f_page filters) 0;
                     pageSize = or_else (f_pageSize filters) 0;
                     offset = (page - 1) * pageSize;
                     total = length js;
                     paginatedJobs = take pageSize (drop offset js)
                 in Inr (JObject
                      [(''data'', JArray paginatedJobs),
                       (''pagination'', JObject
                          [(''page'', JNum page),
                           (''pageSize'', JNum pageSize),
                           (''total'', JNum total),
                           (''totalPages'', JNum (nat \<lceil>real total / real pageSize\<rceil>)),
                           (''hasMore'', JBool (offset + pageSize < total))])]))
           else Inr (JArray js)))"

subsection \<open>Slugs\<close>

definition isSlugUnique :: "db \<Rightarrow> string \<Rightarrow> key option \<Rightarrow> error + bool" where
  "isSlugUnique d s excludeId =
     (case where_first d Jobs ''slug'' (\<lambda>j. slug j = s) (jobs d) of
        Inl e \<Rightarrow> Inl e
      | Inr None \<Rightarrow> Inr True
      | Inr (Some existingJob) \<Rightarrow> Inr (Some (ident existingJob) = excludeId))"

text \<open>
  The loop of \<^verbatim>\<open>createJob\<close> and \<^verbatim>\<open>updateJob\<close> that probes \<^verbatim>\<open>baseSlug-1\<close>,
  \<^verbatim>\<open>baseSlug-2\<close>, ... until \<^verbatim>\<open>isSlugUnique\<close> answers true.
\<close>

function uniqueSlug :: "db \<Rightarrow> key option \<Rightarrow> string \<Rightarrow> string \<Rightarrow> nat \<Rightarrow> error + string" where
  "uniqueSlug d excludeId baseSlug s counter =
     (case isSlugUnique d s excludeId of
        Inl e \<Rightarrow> Inl e
      | Inr unique \<Rightarrow>
          if unique then Inr s
          else uniqueSlug d excludeId baseSlug (baseSlug @ ''-'' @ dec counter) (Suc counter))"
  by pat_completeness auto

text \<open>
  \<^verbatim>\<open>createJob\<close> writes the slug it settles on into the \<^verbatim>\<open>jobData\<close> object of its caller.
  The call gives what the promise settles with, the caller's object after the call, and
  the database. The job returned is the object the factory made, as the storage left it.
  The probe can throw at its first request only (whether the key path is indexed does not
  change during the loop), so the caller's object then holds the slug it held when the
  loop began.
\<close>

definition createJob ::
  "timestamp \<Rightarrow> key \<Rightarrow> job_data \<Rightarrow> db \<Rightarrow> (error + job) \<times> job_data \<times> db" where
  "createJob now gen jobData d =
     (let jobData1 =
            (if \<not> truthy_str (jd_slug jobData) \<and> truthy_str (jd_title jobData)
             then jobData\<lparr>jd_slug := Some (generateSlug (or_else (jd_title jobData) []))\<rparr>
             else jobData)
      in case (if truthy_str (jd_slug jobData1)
               then (case uniqueSlug d None (or_else (jd_slug jobData1) [])
                            (or_else (jd_slug jobData1) []) 1 of
                       Inl e \<Rightarrow> Inl e
                     | Inr s \<Rightarrow> Inr (jobData1\<lparr>jd_slug := Some s\<rparr>))
               else Inr jobData1) of
           Inl e \<Rightarrow> (Inl e, jobData1, d)
         | Inr jobData2 \<Rightarrow>
             (let job = createJob_factory gen jobData2 in
              case (if truthy_key (ident job)
                    then Inr (tbl_put (hooked Jobs) now job (jobs d))
                    else tbl_add (hooked Jobs) now job (jobs d)) of
                Inl e \<Rightarrow> (Inl e, jobData2, d)
              | Inr (job', rows) \<Rightarrow> (Inr job', jobData2, d\<lparr>jobs := rows\<rparr>)))"

subsection \<open>Reordering\<close>

text \<open>
  The body that \<^verbatim>\<open>reorderJobs\<close> runs inside \<^verbatim>\<open>db.transaction('rw', db.jobs, ...)\<close>;
  \<open>flt\<close> numbers its requests to the storage as for the cascades.
\<close>

definition reorderJobs_body ::
  "nat option \<Rightarrow> timestamp \<Rightarrow> int \<Rightarrow> int \<Rightarrow> db \<Rightarrow> (error + job list) \<times> db" where
  "reorderJobs_body flt now fromOrder toOrder d =
     (if flt = Some 0 then (Inl StorageError, d) else
     (case orderBy_order d of
        Inl e \<Rightarrow> (Inl e, d)
      | Inr js \<Rightarrow>
     (case (find (\<lambda>j. order j = fromOrder) js, find (\<lambda>j. order j = toOrder) js) of
        (Some fromJob, Some toJob) \<Rightarrow>
          (if flt = Some 1 then (Inl StorageError, d) else
          (let d1 = d\<lparr>jobs := tbl_update (hooked Jobs) now (ident fromJob)
                                (\<lambda>j. j\<lparr>order := toOrder\<rparr>) (jobs d)\<rparr> in
          (if flt = Some 2 then (Inl StorageError, d1) else
          (let d2 = d1\<lparr>jobs := tbl_update (hooked Jobs) now (ident toJob)
                                 (\<lambda>j. j\<lparr>order := fromOrder\<rparr>) (jobs d1)\<rparr> in
          (if flt = Some 3 then (Inl StorageError, d2) else
          (case orderBy_order d2 of
             Inl e \<Rightarrow> (Inl e, d2)
           | Inr r \<Rightarrow> (Inr r, d2)))))))
      | _ \<Rightarrow>
          (if flt = Some 1 then (Inl StorageError, d) else
          (case orderBy_order d of
             Inl e \<Rightarrow> (Inl e, d)
           | Inr r \<Rightarrow> (Inr r, d))))))"

definition reorderJobs ::
  "nat option \<Rightarrow> timestamp \<Rightarrow> int \<Rightarrow> int \<Rightarrow> db \<Rightarrow> (error + job list) \<times> db" where
  "reorderJobs flt now fromOrder toOrder d =
     transaction (reorderJobs_body flt now fromOrder toOrder) d"

section \<open>Observations on the store\<close>

text \<open>The rows of the dependent tables that refer to a candidate.\<close>

definition events_of :: "key \<Rightarrow> db \<Rightarrow> timeline_event list" where
  "events_of cid d = filter (\<lambda>ev. ev_candidateId ev = cid) (timelineEvents d)"

definition notes_of :: "key \<Rightarrow> db \<Rightarrow> candidate_note list" where
  "notes_of cid d = filter (\<lambda>n. n_candidateId n = cid) (notes_table d)"

definition responses_of :: "key \<Rightarrow> db \<Rightarrow> assessment_response list" where
  "responses_of cid d = filter (\<lambda>r. ar_candidateId r = cid) (assessmentResponses d)"

definition applications_of :: "key \<Rightarrow> db \<Rightarrow> job_application list" where
  "applications_of cid d = filter (\<lambda>a. ja_candidateId a = cid) (jobApplications d)"

text \<open>The invariant of the jobApplications table: no pair (candidateId, jobId) twice.\<close>

definition application_pairs :: "db \<Rightarrow> (key \<times> key) list" where
  "application_pairs d = map (\<lambda>a. (ja_candidateId a, ja_jobId a)) (jobApplications d)"

definition unique_applications :: "db \<Rightarrow> bool" where
  "unique_applications d = distinct (application_pairs d)"

text \<open>
  The filter of \<^verbatim>\<open>getJobs\<close> in the words of its description: the status is the one asked
  for, one of the tags asked for is a tag of the job, and the search term occurs, case
  ignored, in the title, the description or a tag. \<open>job_listing\<close> is the list the query
  runs over: the jobs by \<^verbatim>\<open>order\<close>, filtered.
\<close>

definition matches_filters :: "job_filters \<Rightarrow> job \<Rightarrow> bool" where
  "matches_filters filters j =
     ((case f_status filters of None \<Rightarrow> True | Some st \<Rightarrow> status j = st)
      \<and> (case f_tags filters of None \<Rightarrow> True
          | Some ts \<Rightarrow> ts = [] \<or> (\<exists>tag \<in> set ts. tag \<in> set (tags j)))
      \<and> (case f_search filters of None \<Rightarrow> True
          | Some s \<Rightarrow> s = [] \<or> search_match (toLowerCase s) j))"

definition job_listing :: "job_filters \<Rightarrow> db \<Rightarrow> job list" where
  "job_listing filters d = apply_filters filters (sort_key order (jobs d))"

text \<open>The properties of a returned object.\<close>

fun property :: "string \<Rightarrow> jsval \<Rightarrow> jsval option" where
  "property p (JObject fs) = map_of fs p"
| "property p _ = None"

fun property_names :: "jsval \<Rightarrow> string list" where
  "property_names (JObject fs) = map fst fs"
| "property_names _ = []"

text \<open>
  What \<^verbatim>\<open>reorderJobs\<close> does to a row when it found \<open>fromJob\<close> and \<open>toJob\<close>: the two rows
  exchange their \<^verbatim>\<open>order\<close>, every other row is left alone.
\<close>

definition reordered :: "job \<Rightarrow> job \<Rightarrow> job \<Rightarrow> job" where
  "reordered fromJob toJob j =
     (if ident j = ident toJob then j\<lparr>order := order fromJob\<rparr>
      else if ident j = ident fromJob then j\<lparr>order := order toJob\<rparr>
      else j)"

text \<open>
  A string matches \<^verbatim>\<open>^{base}(-\d+)?$\<close> when it is the base slug, or the base slug, a
  hyphen and one or more decimal digits.
\<close>

definition matches_base :: "string \<Rightarrow> string \<Rightarrow> bool" where
  "matches_base base s =
     (s = base
      \<or> (take (length base + 1) s = base @ ''-''
          \<and> drop (length base + 1) s \<noteq> []
          \<and> list_all is_digit (drop (length base + 1) s)))"

text \<open>
  A sequence of \<^verbatim>\<open>createJob\<close> calls, each with its clock reading, the identifier the
  factory would generate and the data passed; the sequence stops at the first call that
  throws. \<open>call_key\<close> is the key under which a call stores its job, \<open>titled t\<close> says that
  a call passes the title \<open>t\<close> and no slug, and \<open>created_slugs\<close> are the slugs of the jobs
  the calls return.
\<close>

type_synonym job_call = "timestamp \<times> key \<times> job_data"

definition call_key :: "job_call \<Rightarrow> key" where
  "call_key c = or_else (jd_id (snd (snd c))) (fst (snd c))"

definition titled :: "string \<Rightarrow> job_call \<Rightarrow> bool" where
  "titled t c = (jd_title (snd (snd c)) = Some t \<and> jd_slug (snd (snd c)) = None)"

fun createJobs :: "job_call list \<Rightarrow> db \<Rightarrow> (error + job list) \<times> db" where
  "createJobs [] d = (Inr [], d)"
| "createJobs (c # calls) d =
     (case createJob (fst c) (fst (snd c)) (snd (snd c)) d of
        (Inl e, _, d') \<Rightarrow> (Inl e, d')
      | (Inr job, _, d') \<Rightarrow>
          (case createJobs calls d' of
             (Inl e, d'') \<Rightarrow> (Inl e, d'')
           | (Inr js, d'') \<Rightarrow> (Inr (job # js), d'')))"

definition created_slugs :: "job_call list \<Rightarrow> db \<Rightarrow> error + string list" where
  "created_slugs calls d = map_sum (\<lambda>e. e) (map slug) (fst (createJobs calls d))"

text \<open>
  The \<open>stage_change\<close> events of a candidate, counted. A call of \<^verbatim>\<open>updateCandidate\<close>
  changes the stage when its patch has a stage that differs from the stage of the stored
  candidate (or there is no stored candidate) at the time of the call.
\<close>

definition stage_change_count :: "key \<Rightarrow> db \<Rightarrow> nat" where
  "stage_change_count cid d =
     length (filter (\<lambda>ev. ev_type ev = stage_change) (events_of cid d))"

definition stage_changing :: "key \<Rightarrow> candidate_patch \<Rightarrow> db \<Rightarrow> bool" where
  "stage_changing cid u d =
     (case cp_stage u of
        None \<Rightarrow> False
      | Some s \<Rightarrow> Some s \<noteq> map_option stage (tbl_get cid (candidates d)))"

text \<open>
  The calls that write \<open>stage_change\<close> events: \<^verbatim>\<open>createCandidate\<close> with its clock
  reading, the identifiers generated for the candidate and for its timeline event, and the
  data; \<^verbatim>\<open>updateCandidate\<close> with its clock reading, the identifier generated for its
  timeline event, the candidate id and the patch. A sequence of calls runs on, whether or
  not a call throws.
\<close>

datatype candidate_op =
  CreateCandidate timestamp key key candidate_data
| UpdateCandidate timestamp key key candidate_patch

fun op_event_key :: "candidate_op \<Rightarrow> key" where
  "op_event_key (CreateCandidate now gen gen_ev candidateData) = gen_ev"
| "op_event_key (UpdateCandidate now gen_ev cid updates) = gen_ev"

fun run_op :: "candidate_op \<Rightarrow> db \<Rightarrow> db" where
  "run_op (CreateCandidate now gen gen_ev candidateData) d =
     snd (createCandidate now gen gen_ev candidateData d)"
| "run_op (UpdateCandidate now gen_ev cid updates) d =
     snd (updateCandidate now gen_ev cid updates d)"

fun run_ops :: "candidate_op list \<Rightarrow> db \<Rightarrow> db" where
  "run_ops [] d = d"
| "run_ops (c # ops) d = run_ops ops (run_op c d)"

text \<open>
  \<open>creates cid c d\<close>: the call \<open>c\<close> is a \<^verbatim>\<open>createCandidate\<close> under the id \<open>cid\<close> that
  returns when it runs on \<open>d\<close>. \<open>changes_stage cid c d\<close>: the call is an
  \<^verbatim>\<open>updateCandidate\<close> of \<open>cid\<close> that changes the stage. \<open>creations\<close> and \<open>stage_changes\<close>
  count such calls in a sequence, each judged on the database it runs on.
\<close>

fun creates :: "key \<Rightarrow> candidate_op \<Rightarrow> db \<Rightarrow> bool" where
  "creates cid (CreateCandidate now gen gen_ev candidateData) d =
     (or_else (cd_id candidateData) gen = cid
      \<and> \<not> isl (fst (createCandidate now gen gen_ev candidateData d)))"
| "creates cid (UpdateCandidate now gen_ev k updates) d = False"

fun changes_stage :: "key \<Rightarrow> candidate_op \<Rightarrow> db \<Rightarrow> bool" where
  "changes_stage cid (CreateCandidate now gen gen_ev candidateData) d = False"
| "changes_stage cid (UpdateCandidate now gen_ev k updates) d =
     (k = cid \<and> stage_changing cid updates d)"

fun creations :: "key \<Rightarrow> candidate_op list \<Rightarrow> db \<Rightarrow> nat" where
  "creations cid [] d = 0"
| "creations cid (c # ops) d =
     (if creates cid c d then 1 else 0) + creations cid ops (run_op c d)"

fun stage_changes :: "key \<Rightarrow> candidate_op list \<Rightarrow> db \<Rightarrow> nat" where
  "stage_changes cid [] d = 0"
| "stage_changes cid (c # ops) d =
     (if changes_stage cid c d then 1 else 0) + stage_changes cid ops (run_op c d)"

text \<open>The two events the service writes: for a changed stage, and for a new candidate.\<close>

definition stage_event :: "key \<Rightarrow> key \<Rightarrow> stage option \<Rightarrow> stage \<Rightarrow> timeline_event" where
  "stage_event gen_ev cid old s =
     createTimelineEvent_factory gen_ev
       \<lparr>ed_id = None, ed_candidateId = cid, ed_type = stage_change,
        ed_title = ''Stage Changed to '' @ stage_str s,
        ed_description =
          ''Candidate moved from '' @
          (case old of None \<Rightarrow> ''undefined'' | Some st \<Rightarrow> stage_str st) @
          '' to '' @ stage_str s,
        ed_metadata = MdStageChange old s\<rparr>"

definition submitted_event :: "key \<Rightarrow> key \<Rightarrow> stage \<Rightarrow> timeline_event" where
  "submitted_event gen_ev cid s =
     createTimelineEvent_factory gen_ev
       \<lparr>ed_id = None, ed_candidateId = cid, ed_type = stage_change,
        ed_title = ''Application Submitted'',
        ed_description = ''Candidate applied for the position'',
        ed_metadata = MdStage s\<rparr>"

section \<open>Concrete stores and inputs\<close>

text \<open>The stores and inputs at which the theorems below are evaluated.\<close>

definition ghost_patch :: candidate_patch where
  "ghost_patch = \<lparr>cp_name = None, cp_email = None, cp_stage = Some screen, cp_jobId = None\<rparr>"

text \<open>
  A store with one job, one candidate of that job, and one row that refers to the
  candidate or the job in every other table.
\<close>

definition job1 :: job where
  "job1 = \<lparr>ident = StrKey ''j1'', createdAt = Some 1, updatedAt = Some 1,
           title = ''Backend Engineer'', slug = ''backend-engineer'', description = Some [],
           tags = [''Backend''], status = active, order = 1\<rparr>"

definition candidate1 :: candidate where
  "candidate1 = \<lparr>ident = StrKey ''c1'', createdAt = Some 2, updatedAt = Some 2,
                 name = ''Ada'', email = ''ada@example.com'', stage = applied,
                 c_jobId = StrKey ''j1''\<rparr>"

definition assessment1 :: assessment where
  "assessment1 = \<lparr>ident = StrKey ''a1'', createdAt = Some 3, updatedAt = Some 3,
                  a_jobId = StrKey ''j1'', a_title = ''Backend Engineer Assessment''\<rparr>"

definition event1 :: timeline_event where
  "event1 = \<lparr>ident = StrKey ''e1'', createdAt = None, updatedAt = None,
             ev_candidateId = StrKey ''c1'', ev_type = stage_change,
             ev_title = ''Application Submitted'',
             ev_description = ''Candidate applied for the position'',
             ev_metadata = MdStage applied\<rparr>"

definition note1 :: candidate_note where
  "note1 = \<lparr>ident = StrKey ''n1'', createdAt = Some 4, updatedAt = Some 4,
            n_candidateId = StrKey ''c1'', content = ''strong profile''\<rparr>"

definition response1 :: assessment_response where
  "response1 = \<lparr>ident = StrKey ''r1'', createdAt = None, updatedAt = None,
                ar_candidateId = StrKey ''c1'', ar_assessmentId = StrKey ''a1''\<rparr>"

definition application1 :: job_application where
  "application1 = \<lparr>ident = StrKey ''p1'', createdAt = None, updatedAt = Some 1,
                   ja_candidateId = StrKey ''c1'', ja_jobId = StrKey ''j1'',
                   jobTitle = ''Backend Engineer'', ja_status = applied, ja_notes = [],
                   appliedAt = Some 1\<rparr>"

definition office :: db where
  "office = \<lparr>schema = stores_v1, jobs = [job1], candidates = [candidate1],
             assessments = [assessment1], timelineEvents = [event1], notes_table = [note1],
             assessmentResponses = [response1], jobApplications = [application1]\<rparr>"

lemmas office_rows = office_def job1_def candidate1_def assessment1_def event1_def note1_def
  response1_def application1_def

definition office_without_c1 :: db where
  "office_without_c1 = office\<lparr>candidates := [], timelineEvents := [], notes_table := [],
      assessmentResponses := []\<rparr>"

text \<open>
  Application data for a pair that \<open>office\<close> already holds, and for one it does not; and
  \<open>office\<close> under a schema that does declare the compound index
  \<^verbatim>\<open>[candidateId+jobId]\<close> on jobApplications.
\<close>

definition second_application :: application_data where
  "second_application =
     \<lparr>ad_id = None, ad_candidateId = StrKey ''c1'', ad_jobId = StrKey ''j1'',
      ad_jobTitle = ''Backend Engineer'', ad_status = Some screen, ad_notes = None,
      ad_appliedAt = Some 7\<rparr>"

definition indexed_office :: db where
  "indexed_office =
     office\<lparr>schema := stores_v1 (JobApplications :=
                ''[candidateId+jobId]'' # stores_v1 JobApplications)\<rparr>"

definition third_application :: application_data where
  "third_application =
     \<lparr>ad_id = None, ad_candidateId = StrKey ''c2'', ad_jobId = StrKey ''j1'',
      ad_jobTitle = ''Backend Engineer'', ad_status = Some applied, ad_notes = None,
      ad_appliedAt = None\<rparr>"

text \<open>Two queries: the first page of size one, and a query whose page number is 0.\<close>

definition first_page :: job_filters where
  "first_page = \<lparr>f_status = Some active, f_tags = None, f_search = Some ''ENGINEER'',
                 f_page = Some 1, f_pageSize = Some 1\<rparr>"

definition page_zero :: job_filters where
  "page_zero = \<lparr>f_status = None, f_tags = None, f_search = None,
                f_page = Some 0, f_pageSize = Some 10\<rparr>"

text \<open>
  A job whose title ends in the capital letter E with an acute accent (code point 201), in
  a store with \<open>job1\<close>, and a search for the same word in small letters (code point 233).
\<close>

definition cafe_job :: job where
  "cafe_job = \<lparr>ident = StrKey ''j3'', createdAt = Some 5, updatedAt = Some 5,
               title = [CHR ''C'', CHR ''A'', CHR ''F'', CHR 0xC9], slug = ''caf'',
               description = Some [], tags = [], status = active, order = 2\<rparr>"

definition bistro :: db where
  "bistro = office\<lparr>jobs := [job1, cafe_job]\<rparr>"

definition cafe_search :: job_filters where
  "cafe_search = \<lparr>f_status = None, f_tags = None,
                  f_search = Some [CHR ''c'', CHR ''a'', CHR ''f'', CHR 0xE9],
                  f_page = None, f_pageSize = None\<rparr>"

text \<open>The store \<open>office\<close> with a second job, before and after its two jobs are swapped.\<close>

definition job2 :: job where
  "job2 = \<lparr>ident = StrKey ''j2'', createdAt = Some 1, updatedAt = Some 1,
           title = ''Product Manager'', slug = ''product-manager'', description = Some [],
           tags = [''Product''], status = active, order = 2\<rparr>"

definition board :: db where
  "board = office\<lparr>jobs := [job1, job2]\<rparr>"

definition board_swapped :: db where
  "board_swapped =
     office\<lparr>jobs := [job1\<lparr>order := 2\<rparr>, job2\<lparr>order := 1\<rparr>]\<rparr>"

text \<open>
  Calls of \<^verbatim>\<open>createJob\<close> that pass a title and nothing else but, in the last two
  sequences, an identifier: one and the same in every call, and the identifier of the job
  that \<open>office\<close> stores.
\<close>

definition job_titled :: "string \<Rightarrow> key option \<Rightarrow> job_data" where
  "job_titled t k =
     \<lparr>jd_id = k, jd_title = Some t, jd_slug = None, jd_description = None, jd_tags = None,
      jd_status = None, jd_order = None\<rparr>"

definition backend_calls :: "job_call list" where
  "backend_calls =
     [(1, StrKey ''a'', job_titled ''Backend Engineer'' None),
      (2, StrKey ''b'', job_titled ''Backend Engineer'' None),
      (3, StrKey ''c'', job_titled ''Backend Engineer'' None)]"

definition bang_calls :: "job_call list" where
  "bang_calls =
     [(1, StrKey ''a'', job_titled ''!!!'' None), (2, StrKey ''b'', job_titled ''!!!'' None)]"

definition same_id_calls :: "job_call list" where
  "same_id_calls =
     [(1, StrKey ''a'', job_titled ''Backend Engineer'' (Some (StrKey ''j7''))),
      (2, StrKey ''b'', job_titled ''Backend Engineer'' (Some (StrKey ''j7''))),
      (3, StrKey ''c'', job_titled ''Backend Engineer'' (Some (StrKey ''j7'')))]"

definition replacing_calls :: "job_call list" where
  "replacing_calls =
     [(1, StrKey ''a'', job_titled ''Backend Engineer'' (Some (StrKey ''j1''))),
      (2, StrKey ''b'', job_titled ''Backend Engineer'' None)]"

text \<open>
  A candidate created in the empty database and five updates: to screen, to screen again,
  a new name, an update of another id, and back to applied.
\<close>

definition ada :: candidate_data where
  "ada = \<lparr>cd_id = None, cd_name = Some ''Ada'', cd_email = Some ''ada@example.com'',
           cd_stage = Some applied, cd_jobId = Some (StrKey ''j1'')\<rparr>"

definition to_stage :: "stage \<Rightarrow> candidate_patch" where
  "to_stage s = \<lparr>cp_name = None, cp_email = None, cp_stage = Some s, cp_jobId = None\<rparr>"

definition rename :: "string \<Rightarrow> candidate_patch" where
  "rename n = \<lparr>cp_name = Some n, cp_email = None, cp_stage = None, cp_jobId = None\<rparr>"

definition ada_ops :: "candidate_op list" where
  "ada_ops =
     [CreateCandidate 1 (StrKey ''c9'') (StrKey ''e0'') ada,
      UpdateCandidate 2 (StrKey ''e1'') (StrKey ''c9'') (to_stage screen),
      UpdateCandidate 3 (StrKey ''e2'') (StrKey ''c9'') (to_stage screen),
      UpdateCandidate 4 (StrKey ''e3'') (StrKey ''c9'') (rename ''Ada L.''),
      UpdateCandidate 5 (StrKey ''e4'') (StrKey ''c8'') (to_stage hired),
      UpdateCandidate 6 (StrKey ''e5'') (StrKey ''c9'') (to_stage applied)]"

text \<open>The same candidate created, and created again under the id it is stored under.\<close>

definition recreate_ops :: "candidate_op list" where
  "recreate_ops =
     [CreateCandidate 1 (StrKey ''c9'') (StrKey ''e0'') ada,
      CreateCandidate 2 (StrKey ''c7'') (StrKey ''e1'') (ada\<lparr>cd_id := Some (StrKey ''c9'')\<rparr>)]"

section \<open>Termination of the slug probe\<close>

lemma dec_nonempty: "dec n \<noteq> []"
  by (subst dec.simps) simp

lemma char_of_digit_inj:
  "a < 10 \<Longrightarrow> b < 10 \<Longrightarrow> (char_of (48 + a) :: char) = char_of (48 + b) \<Longrightarrow> a = (b::nat)"
proof -
  assume a: "a < 10" and b: "b < 10" and e: "(char_of (48 + a) :: char) = char_of (48 + b)"
  from e have "(of_char (char_of (48 + a) :: char) :: nat) = of_char (char_of (48 + b) :: char)"
    by simp
  with a b show ?thesis by (simp add: of_char_of)
qed

lemma dec_inj: "dec m = dec n \<Longrightarrow> m = n"
proof (induction m arbitrary: n rule: dec.induct)
  case (1 m)
  show ?case
  proof (cases "m < 10")
    case True
    show ?thesis
    proof (cases "n < 10")
      case n: True
      from "1.prems" True n have "(char_of (48 + m) :: char) = char_of (48 + n)"
        by (simp add: dec.simps[of m] dec.simps[of n])
      with True n show ?thesis by (auto dest: char_of_digit_inj)
    next
      case n: False
      from "1.prems" True n have "length (dec (n div 10) @ [char_of (48 + n mod 10)]) = 1"
        by (simp add: dec.simps[of m] dec.simps[of n] del: length_append)
      with dec_nonempty[of "n div 10"] show ?thesis by (cases "dec (n div 10)") auto
    qed
  next
    case False
    show ?thesis
    proof (cases "n < 10")
      case n: True
      from "1.prems" False n have "length (dec (m div 10) @ [char_of (48 + m mod 10)]) = 1"
        by (simp add: dec.simps[of m] dec.simps[of n] del: length_append)
      with dec_nonempty[of "m div 10"] show ?thesis by (cases "dec (m div 10)") auto
    next
      case n: False
      from "1.prems" False n have e: "dec (m div 10) = dec (n div 10)"
        and c: "(char_of (48 + m mod 10) :: char) = char_of (48 + n mod 10)"
        by (simp_all add: dec.simps[of m] dec.simps[of n])
      from "1.IH"[OF False e] have d: "m div 10 = n div 10" .
      from c have "m mod 10 = n mod 10" by (intro char_of_digit_inj) auto
      with d show ?thesis by (metis div_mult_mod_eq)
    qed
  qed
qed

lemma isSlugUnique_False:
  "isSlugUnique d s ex = Inr False \<Longrightarrow> s \<in> slug ` set (jobs d)"
  by (auto simp: isSlugUnique_def where_first_def find_Some_iff split: if_splits option.splits)

lemma finite_suffixes: "finite {k. c \<le> k \<and> b @ ''-'' @ dec k \<in> slug ` set (jobs d)}"
proof -
  have "inj (\<lambda>k. b @ ''-'' @ dec k)" by (auto simp: inj_def dest: dec_inj)
  then have "finite ((\<lambda>k. b @ ''-'' @ dec k) -` (slug ` set (jobs d)))"
    by (intro finite_vimageI) auto
  then show ?thesis by (rule rev_finite_subset) auto
qed

termination uniqueSlug
proof (relation "measure (\<lambda>(d, ex, b, s, c).
          2 * card {k. c \<le> k \<and> b @ ''-'' @ dec k \<in> slug ` set (jobs d)}
          + (if s \<in> slug ` set (jobs d) then 1 else 0))", goal_cases)
  case 1
  show ?case by simp
next
  case (2 d ex b s c u)
  then have taken: "s \<in> slug ` set (jobs d)" by (auto dest: isSlugUnique_False)
  let ?A = "\<lambda>c. {k. c \<le> k \<and> b @ ''-'' @ dec k \<in> slug ` set (jobs d)}"
  show ?case
  proof (cases "b @ ''-'' @ dec c \<in> slug ` set (jobs d)")
    case True
    have "?A (Suc c) \<subset> ?A c" using True by (auto simp: Suc_le_eq)
    then have "card (?A (Suc c)) < card (?A c)"
      by (intro psubset_card_mono finite_suffixes)
    with taken True show ?thesis by simp
  next
    case False
    have "?A (Suc c) = ?A c" using False by (auto simp: Suc_le_eq) (metis le_neq_implies_less)?
    with taken False show ?thesis by simp
  qed
qed

declare uniqueSlug.simps [simp del]

section \<open>Facts about the storage engine\<close>

lemma set_insert_sorted: "set (insert_sorted r xs) = insert r (set xs)"
  by (induction xs) auto

lemma mset_insert_sorted: "mset (insert_sorted r xs) = add_mset r (mset xs)"
  by (induction xs) auto

lemma tbl_get_None_iff: "tbl_get k rows = None \<longleftrightarrow> k \<notin> ident ` set rows"
  by (auto simp: tbl_get_def find_None_iff)

lemma tbl_delete_absent: "k \<notin> ident ` set rows \<Longrightarrow> tbl_delete k rows = rows"
  by (auto simp: tbl_delete_def filter_id_conv)

lemma tbl_update_absent: "k \<notin> ident ` set rows \<Longrightarrow> tbl_update h now k f rows = rows"
  unfolding tbl_update_def by (induction rows) auto

lemma ident_creating_hook: "ident (creating_hook h now r) = ident r"
  by (simp add: creating_hook_def)

lemma tbl_add_fresh:
  "ident r \<notin> ident ` set rows \<Longrightarrow>
   tbl_add h now r rows
     = Inr (creating_hook h now r, insert_sorted (creating_hook h now r) rows)"
  by (simp add: tbl_add_def tbl_get_None_iff[THEN iffD2] tbl_insert_def ident_creating_hook
      tbl_delete_absent)

lemma createTimelineEvent_fresh:
  "or_else (ed_id ed) gen \<notin> ident ` set (timelineEvents d) \<Longrightarrow>
   createTimelineEvent now gen ed d =
     (Inr (createTimelineEvent_factory gen ed),
      d\<lparr>timelineEvents := insert_sorted (createTimelineEvent_factory gen ed) (timelineEvents d)\<rparr>)"
  by (simp add: createTimelineEvent_def Let_def tbl_add_fresh createTimelineEvent_factory_def
      creating_hook_def)

lemma distinct_map_insert_sorted:
  "distinct (map f (insert_sorted r xs)) \<longleftrightarrow> f r \<notin> f ` set xs \<and> distinct (map f xs)"
  by (induction xs) (auto simp: set_insert_sorted)

lemma tbl_get_insert_sorted:
  "k \<notin> ident ` set xs \<Longrightarrow> ident r = k \<Longrightarrow> tbl_get k (insert_sorted r xs) = Some r"
  by (induction xs) (auto simp: tbl_get_def)

lemma tbl_get_tbl_insert: "tbl_get (ident r) (tbl_insert r rows) = Some r"
  unfolding tbl_insert_def by (rule tbl_get_insert_sorted) (auto simp: tbl_delete_def)

lemma merge_returned_updating_hook: "merge_returned (updating_hook h now f) r = r"
  by (simp add: merge_returned_def updating_hook_def)

lemma tbl_update_eq:
  "tbl_update h now k f rows = map (\<lambda>r. if ident r = k then f r else r) rows"
  by (simp add: tbl_update_def merge_returned_updating_hook)


section \<open>Deleting a job\<close>

text \<open>
  Claim C1. \<^verbatim>\<open>deleteJob\<close> is to delete the job, its candidates and its assessments in
  one atomic transaction. The source issues three separate requests and opens no
  transaction. When the storage rejects the second request (the deletion of the
  candidates), the call fails and leaves the database with the job deleted and every
  other table as it was. On the store \<open>office\<close>: the job is gone, and the candidate and
  the assessment of the job are still stored.
\<close>

theorem deleteJob_interrupted:
  "deleteJob (Some 1) jid d = (Inl StorageError, d\<lparr>jobs := tbl_delete jid (jobs d)\<rparr>)
   \<and> deleteJob (Some 1) (StrKey ''j1'') office = (Inl StorageError, office\<lparr>jobs := []\<rparr>)
   \<and> tbl_get (StrKey ''j1'') (jobs (office\<lparr>jobs := []\<rparr>)) = None
   \<and> candidates (office\<lparr>jobs := []\<rparr>) = [candidate1]
   \<and> c_jobId candidate1 = StrKey ''j1''
   \<and> assessments (office\<lparr>jobs := []\<rparr>) = [assessment1]
   \<and> a_jobId assessment1 = StrKey ''j1''"
proof -
  have "deleteJob (Some 1) jid d = (Inl StorageError, d\<lparr>jobs := tbl_delete jid (jobs d)\<rparr>)"
    for jid d
    by (simp add: deleteJob_def Let_def)
  then show ?thesis
    by (simp add: tbl_delete_def tbl_get_def office_rows)
qed

section \<open>Deleting a candidate\<close>

text \<open>
  Claim C2, as stated, fails: \<^verbatim>\<open>deleteCandidate\<close> never touches the jobApplications
  table. On the store \<open>office\<close> the call succeeds and the application of the deleted
  candidate is still there.
\<close>

theorem deleteCandidate_keeps_applications:
  "fst (deleteCandidate None (StrKey ''c1'') office) = Inr ()
   \<and> applications_of (StrKey ''c1'') (snd (deleteCandidate None (StrKey ''c1'') office))
       = [application1]"
  by (simp add: deleteCandidate_def Let_def tbl_delete_def where_delete_def indexed_def
      applications_of_def office_rows)

text \<open>
  Claim C2, amended. Under the declared schema and with the storage serving every request,
  \<^verbatim>\<open>deleteCandidate\<close> succeeds; and whenever it succeeds, the candidate is gone, no
  timeline event, note or assessment response with its \<^verbatim>\<open>candidateId\<close> remains, and the
  jobApplications table is what it was.
\<close>

theorem deleteCandidate_cascade:
  "(schema d = stores_v1 \<longrightarrow> (\<exists>d'. deleteCandidate None cid d = (Inr (), d')))
   \<and> (deleteCandidate flt cid d = (Inr (), d') \<longrightarrow>
        tbl_get cid (candidates d') = None
        \<and> events_of cid d' = [] \<and> notes_of cid d' = [] \<and> responses_of cid d' = []
        \<and> jobApplications d' = jobApplications d)"
proof (intro conjI impI)
  assume "schema d = stores_v1"
  then show "\<exists>d'. deleteCandidate None cid d = (Inr (), d')"
    by (simp add: deleteCandidate_def Let_def where_delete_def indexed_def)
next
  assume ok: "deleteCandidate flt cid d = (Inr (), d')"
  then have d': "d' = d\<lparr>candidates := tbl_delete cid (candidates d),
      timelineEvents := filter (\<lambda>ev. ev_candidateId ev \<noteq> cid) (timelineEvents d),
      notes_table := filter (\<lambda>n. n_candidateId n \<noteq> cid) (notes_table d),
      assessmentResponses := filter (\<lambda>r. ar_candidateId r \<noteq> cid) (assessmentResponses d)\<rparr>"
    by (auto simp: deleteCandidate_def Let_def where_delete_def split: if_splits sum.splits)
  show "tbl_get cid (candidates d') = None"
    by (auto simp: d' tbl_get_None_iff tbl_delete_def)
  show "events_of cid d' = []" by (simp add: d' events_of_def)
  show "notes_of cid d' = []" by (simp add: d' notes_of_def)
  show "responses_of cid d' = []" by (simp add: d' responses_of_def)
  show "jobApplications d' = jobApplications d" by (simp add: d')
qed

theorem deleteCandidate_cascade_witness:
  "schema office = stores_v1
   \<and> deleteCandidate None (StrKey ''c1'') office = (Inr (), office_without_c1)
   \<and> tbl_get (StrKey ''c1'') (candidates office_without_c1) = None
   \<and> events_of (StrKey ''c1'') office_without_c1 = []
   \<and> notes_of (StrKey ''c1'') office_without_c1 = []
   \<and> responses_of (StrKey ''c1'') office_without_c1 = []
   \<and> jobApplications office_without_c1 = jobApplications office"
proof -
  have s: "schema office = stores_v1" by (simp add: office_def)
  have r: "deleteCandidate None (StrKey ''c1'') office = (Inr (), office_without_c1)"
    by (simp add: deleteCandidate_def Let_def tbl_delete_def where_delete_def indexed_def
        office_without_c1_def office_rows)
  from deleteCandidate_cascade[of office "StrKey ''c1''" None office_without_c1] s r
  show ?thesis by simp
qed

section \<open>One application per candidate and job\<close>

text \<open>
  Claim C3, as stated, fails for \<^verbatim>\<open>createJobApplication\<close>: it adds the row it is given
  and looks at no other row. On the store \<open>office\<close>, which holds one application of
  candidate c1 to job j1, a direct call with the same pair leaves two.
\<close>

theorem createJobApplication_duplicates_pair:
  "unique_applications office
   \<and> application_pairs office = [(StrKey ''c1'', StrKey ''j1'')]
   \<and> application_pairs
        (snd (createJobApplication 9 (StrKey ''p2'') (StrKey ''e2'') second_application office))
       = [(StrKey ''c1'', StrKey ''j1''), (StrKey ''c1'', StrKey ''j1'')]
   \<and> \<not> unique_applications
        (snd (createJobApplication 9 (StrKey ''p2'') (StrKey ''e2'') second_application office))"
  by (simp add: createJobApplication_def createTimelineEvent_def tbl_add_def tbl_get_def
      tbl_insert_def tbl_delete_def creating_hook_def createJobApplication_factory_def
      createTimelineEvent_factory_def or_else_def Let_def second_application_def
      unique_applications_def application_pairs_def office_rows)

lemma createJobApplication_table:
  "jobApplications (snd (createJobApplication now gen gen_ev ad d)) = jobApplications d
   \<or> (or_else (ad_id ad) gen \<notin> ident ` set (jobApplications d)
       \<and> jobApplications (snd (createJobApplication now gen gen_ev ad d))
         = insert_sorted (createJobApplication_factory gen ad) (jobApplications d))"
  by (auto simp: createJobApplication_def createTimelineEvent_def tbl_add_def Let_def
      tbl_get_None_iff tbl_insert_def tbl_delete_absent creating_hook_def
      createJobApplication_factory_def
      split: option.splits sum.splits prod.splits)

lemma createJobApplication_unique:
  assumes "unique_applications d"
    and "(ad_candidateId ad, ad_jobId ad) \<notin> set (application_pairs d)"
  shows "unique_applications (snd (createJobApplication now gen gen_ev ad d))"
  using createJobApplication_table[of now gen gen_ev ad d] assms
  by (auto simp: unique_applications_def application_pairs_def distinct_map_insert_sorted
      createJobApplication_factory_def)

text \<open>
  Claim C3, amended. \<^verbatim>\<open>applyCandidateToJob\<close> keeps the invariant from every store, under
  every schema: it adds a row only after its query found none for the pair.
  \<^verbatim>\<open>createJobApplication\<close> called directly keeps it when the pair it is given is not in
  the table yet.
\<close>

theorem applications_stay_unique:
  "(unique_applications d \<longrightarrow>
      unique_applications (snd (applyCandidateToJob now gen gen_ev candidateId jobId d)))
   \<and> (unique_applications d \<and> (ad_candidateId ad, ad_jobId ad) \<notin> set (application_pairs d) \<longrightarrow>
      unique_applications (snd (createJobApplication now gen gen_ev ad d)))"
proof (intro conjI impI)
  assume u: "unique_applications d"
  show "unique_applications (snd (applyCandidateToJob now gen gen_ev candidateId jobId d))"
  proof (cases "tbl_get jobId (jobs d)")
    case None
    with u show ?thesis by (simp add: applyCandidateToJob_def)
  next
    case (Some job)
    show ?thesis
    proof (cases "where_first d JobApplications ''[candidateId+jobId]''
                    (\<lambda>a. ja_candidateId a = candidateId \<and> ja_jobId a = jobId)
                    (jobApplications d)")
      case (Inl e)
      with u Some show ?thesis by (simp add: applyCandidateToJob_def)
    next
      case (Inr found)
      show ?thesis
      proof (cases found)
        case None
        with Inr have "(candidateId, jobId) \<notin> set (application_pairs d)"
          by (auto simp: where_first_def find_None_iff application_pairs_def split: if_splits)
        with u Some Inr None show ?thesis
          by (simp add: applyCandidateToJob_def createJobApplication_unique)
      next
        case (Some a)
        with u \<open>tbl_get jobId (jobs d) = Some job\<close> Inr show ?thesis
          by (simp add: applyCandidateToJob_def)
      qed
    qed
  qed
next
  assume "unique_applications d \<and> (ad_candidateId ad, ad_jobId ad) \<notin> set (application_pairs d)"
  then show "unique_applications (snd (createJobApplication now gen gen_ev ad d))"
    by (simp add: createJobApplication_unique)
qed

text \<open>
  The theorem at a store whose schema declares the compound index, where
  \<^verbatim>\<open>applyCandidateToJob\<close> takes the path that adds the row.
\<close>

theorem applications_stay_unique_witness:
  "unique_applications indexed_office
   \<and> application_pairs
        (snd (applyCandidateToJob 9 (StrKey ''p2'') (StrKey ''e2'') (StrKey ''c2'') (StrKey ''j1'')
               indexed_office))
       = [(StrKey ''c1'', StrKey ''j1''), (StrKey ''c2'', StrKey ''j1'')]
   \<and> unique_applications
        (snd (applyCandidateToJob 9 (StrKey ''p2'') (StrKey ''e2'') (StrKey ''c2'') (StrKey ''j1'')
               indexed_office))
   \<and> (ad_candidateId third_application, ad_jobId third_application)
        \<notin> set (application_pairs indexed_office)
   \<and> unique_applications
        (snd (createJobApplication 9 (StrKey ''p2'') (StrKey ''e2'') third_application
               indexed_office))"
proof -
  have u: "unique_applications indexed_office"
    by (simp add: unique_applications_def application_pairs_def indexed_office_def office_rows)
  have p: "application_pairs
        (snd (applyCandidateToJob 9 (StrKey ''p2'') (StrKey ''e2'') (StrKey ''c2'') (StrKey ''j1'')
               indexed_office))
       = [(StrKey ''c1'', StrKey ''j1''), (StrKey ''c2'', StrKey ''j1'')]"
    by (simp add: applyCandidateToJob_def where_first_def indexed_def
      createJobApplication_def createTimelineEvent_def tbl_add_def tbl_get_def
      tbl_insert_def tbl_delete_def creating_hook_def createJobApplication_factory_def
      createTimelineEvent_factory_def or_else_def Let_def
      application_pairs_def indexed_office_def office_rows)
  have n: "(ad_candidateId third_application, ad_jobId third_application)
        \<notin> set (application_pairs indexed_office)"
    by (simp add: third_application_def application_pairs_def indexed_office_def office_rows)
  from applications_stay_unique[of indexed_office 9 "StrKey ''p2''" "StrKey ''e2''"
      "StrKey ''c2''" "StrKey ''j1''" third_application] u p n
  show ?thesis by simp
qed

section \<open>Slugs of jobs created in sequence\<close>

lemma slug_backend: "generateSlug ''Backend Engineer'' = ''backend-engineer''"
  by code_simp

lemma slug_bang: "generateSlug ''!!!'' = []"
  by code_simp

lemma dec_1: "dec (Suc 0) = ''1''"
  by code_simp

lemma dec_2: "dec (Suc (Suc 0)) = ''2''"
  by code_simp


lemma isSlugUnique_None:
  "indexed d Jobs ''slug'' \<Longrightarrow> isSlugUnique d s None = Inr (s \<notin> slug ` set (jobs d))"
  by (auto simp: isSlugUnique_def where_first_def find_None_iff find_Some_iff
      split: option.splits)

lemma uniqueSlug_free:
  "indexed d Jobs ''slug'' \<Longrightarrow> s \<notin> slug ` set (jobs d) \<Longrightarrow> uniqueSlug d None b s c = Inr s"
  by (subst uniqueSlug.simps) (simp add: isSlugUnique_None)

lemma uniqueSlug_taken:
  "indexed d Jobs ''slug'' \<Longrightarrow> s \<in> slug ` set (jobs d) \<Longrightarrow>
   uniqueSlug d None b s c = uniqueSlug d None b (b @ ''-'' @ dec c) (Suc c)"
  by (subst uniqueSlug.simps) (simp add: isSlugUnique_None)

lemma uniqueSlug_result:
  "indexed d Jobs ''slug'' \<Longrightarrow>
   \<exists>s. uniqueSlug d None b cur c = Inr s \<and> s \<notin> slug ` set (jobs d)
       \<and> (s = cur \<or> (\<exists>k. s = b @ ''-'' @ dec k))"
proof (induction d "None :: key option" b cur c rule: uniqueSlug.induct)
  case (1 d b s c)
  show ?case
  proof (cases "s \<in> slug ` set (jobs d)")
    case False
    with "1.prems" show ?thesis by (auto simp: uniqueSlug_free)
  next
    case True
    with "1.prems" have "isSlugUnique d s None = Inr False" by (simp add: isSlugUnique_None)
    from "1.hyps"[OF this _ "1.prems"] obtain s' where
      "uniqueSlug d None b (b @ ''-'' @ dec c) (Suc c) = Inr s'"
      "s' \<notin> slug ` set (jobs d)"
      "s' = b @ ''-'' @ dec c \<or> (\<exists>k. s' = b @ ''-'' @ dec k)"
      by auto
    with True "1.prems" show ?thesis by (auto simp: uniqueSlug_taken)
  qed
qed

lemma is_digit_char_of: "m < 10 \<Longrightarrow> is_digit (char_of (48 + m :: nat))"
  by (simp add: is_digit_def of_char_of)

lemma dec_digits: "list_all is_digit (dec n)"
proof (induction n rule: dec.induct)
  case (1 n)
  show ?case
  proof (cases "n < 10")
    case True
    then show ?thesis by (subst dec.simps) (simp add: is_digit_char_of)
  next
    case False
    with "1.IH" show ?thesis by (subst dec.simps) (simp add: is_digit_char_of)
  qed
qed

lemma matches_base_suffix: "matches_base b (b @ ''-'' @ dec k)"
  by (simp add: matches_base_def dec_nonempty dec_digits)

lemma matches_base_self: "matches_base b b"
  by (simp add: matches_base_def)

lemma generateSlug_Nil: "generateSlug [] = []"
  by (simp add: generateSlug_def trim_def toLowerCase_def)

lemma set_tbl_insert:
  "set (tbl_insert r rows) = insert r {x \<in> set rows. ident x \<noteq> ident r}"
  by (auto simp: tbl_insert_def tbl_delete_def set_insert_sorted)

lemma store_job:
  assumes "truthy_key (ident j) \<or> ident j \<notin> ident ` set rows"
  shows "\<exists>j'. (if truthy_key (ident j) then Inr (tbl_put h now j rows)
                else tbl_add h now j rows) = Inr (j', tbl_insert j' rows)
              \<and> ident j' = ident j \<and> slug j' = slug j"
proof (cases "tbl_get (ident j) rows")
  case None
  then have "(if truthy_key (ident j) then Inr (tbl_put h now j rows)
              else tbl_add h now j rows)
             = Inr (creating_hook h now j, tbl_insert (creating_hook h now j) rows)"
    by (simp add: tbl_put_def tbl_add_def)
  then show ?thesis
    by (intro exI[of _ "creating_hook h now j"]) (simp add: creating_hook_def)
next
  case (Some x)
  then have "ident j \<in> ident ` set rows"
    using tbl_get_None_iff[of "ident j" rows] by auto
  with assms have "truthy_key (ident j)" by auto
  with Some have "(if truthy_key (ident j) then Inr (tbl_put h now j rows)
              else tbl_add h now j rows) = Inr (j, tbl_insert j rows)"
    by (simp add: tbl_put_def merge_returned_updating_hook)
  then show ?thesis by (intro exI[of _ j]) simp
qed

lemma createJob_step:
  assumes sch: "schema d = stores_v1"
    and t: "jd_title jd = Some t" "jd_slug jd = None"
    and ne: "generateSlug t \<noteq> []"
    and key: "truthy_key (or_else (jd_id jd) gen)
              \<or> or_else (jd_id jd) gen \<notin> ident ` set (jobs d)"
  shows "\<exists>j jd'. createJob now gen jd d = (Inr j, jd', d\<lparr>jobs := tbl_insert j (jobs d)\<rparr>)
           \<and> ident j = or_else (jd_id jd) gen
           \<and> slug j \<notin> slug ` set (jobs d)
           \<and> matches_base (generateSlug t) (slug j)"
proof -
  from sch have ix: "indexed d Jobs ''slug''" by (simp add: indexed_def)
  from ne have tne: "t \<noteq> []" by (auto simp: generateSlug_Nil)
  from uniqueSlug_result[OF ix, of "generateSlug t" "generateSlug t" 1]
  obtain s where s: "uniqueSlug d None (generateSlug t) (generateSlug t) 1 = Inr s"
    "s \<notin> slug ` set (jobs d)" "s = generateSlug t \<or> (\<exists>k. s = generateSlug t @ ''-'' @ dec k)"
    by blast
  let ?jd = "jd\<lparr>jd_slug := Some s\<rparr>"
  let ?j = "createJob_factory gen ?jd"
  have id: "ident ?j = or_else (jd_id jd) gen" by (simp add: createJob_factory_def)
  have sl: "slug ?j = s" by (simp add: createJob_factory_def or_else_def)
  from key id have "truthy_key (ident ?j) \<or> ident ?j \<notin> ident ` set (jobs d)" by simp
  from store_job[OF this, of "hooked Jobs" now]
  obtain j' where j': "(if truthy_key (ident ?j) then Inr (tbl_put (hooked Jobs) now ?j (jobs d))
                        else tbl_add (hooked Jobs) now ?j (jobs d))
                       = Inr (j', tbl_insert j' (jobs d))"
    "ident j' = ident ?j" "slug j' = slug ?j"
    by blast
  have "createJob now gen jd d = (Inr j', ?jd, d\<lparr>jobs := tbl_insert j' (jobs d)\<rparr>)"
    using t tne ne s(1) j'(1)
    by (simp add: createJob_def truthy_str_def or_else_def Let_def)
  moreover have "matches_base (generateSlug t) (slug j')"
    using s(3) sl j'(3) matches_base_suffix[of "generateSlug t"]
      matches_base_self[of "generateSlug t"]
    by auto
  ultimately show ?thesis using id sl s(2) j'(2,3)
    by (intro exI[of _ j'] exI[of _ ?jd]) simp
qed

lemma createJobs_slugs:
  assumes ne: "generateSlug t \<noteq> []"
  shows "schema d = stores_v1 \<Longrightarrow> \<forall>c \<in> set calls. titled t c \<Longrightarrow>
         distinct (map call_key calls) \<Longrightarrow>
         \<forall>c \<in> set calls. truthy_key (call_key c) \<or> call_key c \<notin> ident ` set (jobs d) \<Longrightarrow>
         \<exists>js d'. createJobs calls d = (Inr js, d') \<and> length js = length calls
           \<and> distinct (map slug js)
           \<and> (\<forall>j \<in> set js. matches_base (generateSlug t) (slug j)
                 \<and> slug j \<notin> slug ` {x \<in> set (jobs d). ident x \<notin> call_key ` set calls})"
proof (induction calls arbitrary: d)
  case Nil
  then show ?case by simp
next
  case (Cons c calls)
  obtain now gen jd where c: "c = (now, gen, jd)" by (cases c) auto
  from Cons.prems c have t: "jd_title jd = Some t" "jd_slug jd = None"
    and key: "truthy_key (or_else (jd_id jd) gen)
              \<or> or_else (jd_id jd) gen \<notin> ident ` set (jobs d)"
    by (auto simp: titled_def call_key_def)
  from createJob_step[OF Cons.prems(1) t ne key, of now]
  obtain j jd' where j:
    "createJob now gen jd d = (Inr j, jd', d\<lparr>jobs := tbl_insert j (jobs d)\<rparr>)"
    "ident j = or_else (jd_id jd) gen" "slug j \<notin> slug ` set (jobs d)"
    "matches_base (generateSlug t) (slug j)"
    by blast
  let ?d1 = "d\<lparr>jobs := tbl_insert j (jobs d)\<rparr>"
  from j(2) c have k: "ident j = call_key c" by (simp add: call_key_def)
  have rows: "set (jobs ?d1) = insert j {x \<in> set (jobs d). ident x \<noteq> call_key c}"
    using k by (simp add: set_tbl_insert)
  from Cons.prems(3) have new: "call_key c \<notin> call_key ` set calls" by simp
  have "\<forall>c' \<in> set calls. truthy_key (call_key c') \<or> call_key c' \<notin> ident ` set (jobs ?d1)"
  proof
    fix c' assume c': "c' \<in> set calls"
    with new have "call_key c' \<noteq> call_key c" by (metis imageI)
    moreover from c' Cons.prems(4)
    have "truthy_key (call_key c') \<or> call_key c' \<notin> ident ` set (jobs d)" by simp
    ultimately show "truthy_key (call_key c') \<or> call_key c' \<notin> ident ` set (jobs ?d1)"
      unfolding rows using k by auto
  qed
  moreover have "schema ?d1 = stores_v1" using Cons.prems(1) by simp
  ultimately obtain js d' where rest: "createJobs calls ?d1 = (Inr js, d')"
    "length js = length calls" "distinct (map slug js)"
    "\<forall>j' \<in> set js. matches_base (generateSlug t) (slug j')
        \<and> slug j' \<notin> slug ` {x \<in> set (jobs ?d1). ident x \<notin> call_key ` set calls}"
    using Cons.IH[of ?d1] Cons.prems(2,3) by auto
  have kept: "j \<in> {x \<in> set (jobs ?d1). ident x \<notin> call_key ` set calls}"
    unfolding rows using k new by simp
  have sub: "{x \<in> set (jobs d). ident x \<notin> call_key ` set (c # calls)}
               \<subseteq> {x \<in> set (jobs ?d1). ident x \<notin> call_key ` set calls}"
    unfolding rows by auto
  have "createJobs (c # calls) d = (Inr (j # js), d')"
    using j(1) rest(1) c by simp
  moreover have "distinct (map slug (j # js))"
  proof -
    have "slug j \<notin> slug ` set js"
    proof
      assume "slug j \<in> slug ` set js"
      then obtain x where x: "x \<in> set js" "slug x = slug j" by auto
      from rest(4) x(1)
      have "slug x \<notin> slug ` {x \<in> set (jobs ?d1). ident x \<notin> call_key ` set calls}"
        by blast
      moreover from kept
      have "slug j \<in> slug ` {x \<in> set (jobs ?d1). ident x \<notin> call_key ` set calls}"
        by (rule imageI)
      ultimately show False using x(2) by simp
    qed
    with rest(3) show ?thesis by simp
  qed
  moreover have "\<forall>j' \<in> set (j # js). matches_base (generateSlug t) (slug j')
        \<and> slug j' \<notin> slug ` {x \<in> set (jobs d). ident x \<notin> call_key ` set (c # calls)}"
  proof
    fix j' assume "j' \<in> set (j # js)"
    then consider "j' = j" | "j' \<in> set js" by auto
    then show "matches_base (generateSlug t) (slug j')
        \<and> slug j' \<notin> slug ` {x \<in> set (jobs d). ident x \<notin> call_key ` set (c # calls)}"
    proof cases
      case 1
      with j(3,4) show ?thesis by auto
    next
      case 2
      with rest(4) sub show ?thesis by blast
    qed
  qed
  ultimately show ?case using rest(2) by (intro exI[of _ "j # js"] exI[of _ d']) simp
qed


lemmas createJob_eval = createJob_def truthy_str_def or_else_def
  uniqueSlug_free uniqueSlug_taken indexed_def
  createJob_factory_def tbl_put_def tbl_add_def tbl_get_def tbl_insert_def tbl_delete_def
  creating_hook_def merge_returned_updating_hook Let_def TalentFlowDB_def job_titled_def

lemma backend_slugs:
  "created_slugs backend_calls TalentFlowDB
     = Inr [''backend-engineer'', ''backend-engineer-1'', ''backend-engineer-2'']"
  by (simp add: created_slugs_def backend_calls_def createJob_eval slug_backend dec_1 dec_2)

lemma replacing_slugs:
  "created_slugs replacing_calls office = Inr [''backend-engineer-1'', ''backend-engineer'']"
  by (simp add: created_slugs_def replacing_calls_def createJob_eval slug_backend dec_1
      office_def job1_def)

text \<open>
  Claim C4, as stated, fails. A title without a letter or digit gives the empty slug;
  \<^verbatim>\<open>createJob\<close> tests \<^verbatim>\<open>if (jobData.slug)\<close> before it probes, so the empty slug is
  stored as it is: two jobs titled \<^verbatim>\<open>!!!\<close> both get the slug \<^verbatim>\<open>''\<close>. And calls that
  pass one and the same id replace the stored job each time, so the third
  \<^verbatim>\<open>Backend Engineer\<close> gets the slug of the first again.
\<close>

theorem createJobs_repeated_slugs:
  "list_all (titled ''!!!'') bang_calls
   \<and> created_slugs bang_calls TalentFlowDB = Inr [[], []]
   \<and> list_all (titled ''Backend Engineer'') same_id_calls
   \<and> created_slugs same_id_calls TalentFlowDB
       = Inr [''backend-engineer'', ''backend-engineer-1'', ''backend-engineer'']"
  by (simp add: created_slugs_def bang_calls_def same_id_calls_def titled_def createJob_eval
      slug_bang slug_backend dec_1 dec_2)

text \<open>
  Claim C4, amended. Under the declared schema, for calls that pass the same title \<open>t\<close>
  and no slug, when the slug derived from \<open>t\<close> is not empty and the calls store their jobs
  under pairwise different keys, each of them truthy (the job is then written with
  \<^verbatim>\<open>put\<close>, which may replace a stored job) or not stored yet: every call succeeds, the
  slugs are pairwise distinct, each matches \<^verbatim>\<open>^{base}(-\d+)?$\<close> for the base
  \<open>generateSlug t\<close>, and none is the slug of a stored job that the calls do not replace.
  Three jobs titled \<^verbatim>\<open>Backend Engineer\<close> created in the empty database get the slugs
  \<^verbatim>\<open>backend-engineer\<close>, \<^verbatim>\<open>backend-engineer-1\<close> and \<^verbatim>\<open>backend-engineer-2\<close>, in that order.
\<close>

theorem createJobs_distinct_slugs:
  assumes "schema d = stores_v1"
    and "generateSlug t \<noteq> []"
    and "\<forall>c \<in> set calls. titled t c"
    and "distinct (map call_key calls)"
    and "\<forall>c \<in> set calls. truthy_key (call_key c) \<or> call_key c \<notin> ident ` set (jobs d)"
  shows "(\<exists>slugs. created_slugs calls d = Inr slugs \<and> length slugs = length calls
            \<and> distinct slugs
            \<and> (\<forall>s \<in> set slugs. matches_base (generateSlug t) s
                  \<and> s \<notin> slug ` {x \<in> set (jobs d). ident x \<notin> call_key ` set calls}))
         \<and> created_slugs backend_calls TalentFlowDB
             = Inr [''backend-engineer'', ''backend-engineer-1'', ''backend-engineer-2'']"
proof -
  from createJobs_slugs[OF assms(2,1,3,4,5)]
  obtain js d' where r: "createJobs calls d = (Inr js, d')" "length js = length calls"
    "distinct (map slug js)"
    "\<forall>j \<in> set js. matches_base (generateSlug t) (slug j)
        \<and> slug j \<notin> slug ` {x \<in> set (jobs d). ident x \<notin> call_key ` set calls}"
    by blast
  then have "created_slugs calls d = Inr (map slug js) \<and> length (map slug js) = length calls
     \<and> distinct (map slug js)
     \<and> (\<forall>s \<in> set (map slug js). matches_base (generateSlug t) s
           \<and> s \<notin> slug ` {x \<in> set (jobs d). ident x \<notin> call_key ` set calls})"
    by (simp add: created_slugs_def)
  then show ?thesis using backend_slugs by blast
qed

theorem createJobs_distinct_slugs_witness:
  "schema office = stores_v1
   \<and> generateSlug ''Backend Engineer'' = ''backend-engineer''
   \<and> list_all (titled ''Backend Engineer'') replacing_calls
   \<and> map call_key replacing_calls = [StrKey ''j1'', StrKey ''b'']
   \<and> map ident (jobs office) = [StrKey ''j1'']
   \<and> map slug (jobs office) = [''backend-engineer'']
   \<and> created_slugs replacing_calls office = Inr [''backend-engineer-1'', ''backend-engineer'']
   \<and> distinct [''backend-engineer-1'', ''backend-engineer'']
   \<and> list_all (matches_base ''backend-engineer'') [''backend-engineer-1'', ''backend-engineer'']
   \<and> created_slugs backend_calls TalentFlowDB
       = Inr [''backend-engineer'', ''backend-engineer-1'', ''backend-engineer-2'']"
proof -
  have s: "schema office = stores_v1" by (simp add: office_def)
  have g: "generateSlug ''Backend Engineer'' \<noteq> []" by (simp add: slug_backend)
  have t: "\<forall>c \<in> set replacing_calls. titled ''Backend Engineer'' c"
    by (simp add: replacing_calls_def titled_def job_titled_def)
  have k: "map call_key replacing_calls = [StrKey ''j1'', StrKey ''b'']"
    by (simp add: replacing_calls_def call_key_def job_titled_def or_else_def)
  then have dk: "distinct (map call_key replacing_calls)" by simp
  have e: "map ident (jobs office) = [StrKey ''j1'']" "map slug (jobs office) = [''backend-engineer'']"
    by (simp_all add: office_def job1_def)
  have f: "\<forall>c \<in> set replacing_calls.
             truthy_key (call_key c) \<or> call_key c \<notin> ident ` set (jobs office)"
    by (simp add: replacing_calls_def call_key_def job_titled_def or_else_def office_def
        job1_def)
  from createJobs_distinct_slugs[OF s g t dk f] replacing_slugs
  have "distinct [''backend-engineer-1'', ''backend-engineer'']
    \<and> (\<forall>s \<in> set [''backend-engineer-1'', ''backend-engineer''].
          matches_base (generateSlug ''Backend Engineer'') s)
    \<and> created_slugs backend_calls TalentFlowDB
       = Inr [''backend-engineer'', ''backend-engineer-1'', ''backend-engineer-2'']"
    by auto
  then show ?thesis using s t k e replacing_slugs
    by (simp add: slug_backend list_all_iff)
qed

section \<open>Applying a candidate to a job\<close>

text \<open>
  Claim C5. \<^verbatim>\<open>applyCandidateToJob\<close> looks for an earlier application with
  \<^verbatim>\<open>where('[candidateId+jobId]')\<close>, a compound key path that the schema of the constructor
  does not declare for jobApplications. Under that schema, whenever the job exists the
  query is rejected: the call fails with the SchemaError, whether or not the candidate
  has applied before, and nothing is stored.
\<close>

theorem applyCandidateToJob_rejected_by_schema:
  assumes "schema d = stores_v1"
    and "tbl_get jobId (jobs d) = Some job"
  shows "applyCandidateToJob now gen gen_ev candidateId jobId d
           = (Inl (SchemaError ''[candidateId+jobId]''), d)"
  using assms by (simp add: applyCandidateToJob_def where_first_def indexed_def)

text \<open>
  On the store \<open>office\<close>, for a candidate who has not applied to the existing job j1.
\<close>

theorem applyCandidateToJob_rejected_by_schema_witness:
  "schema office = stores_v1
   \<and> tbl_get (StrKey ''j1'') (jobs office) = Some job1
   \<and> applications_of (StrKey ''c2'') office = []
   \<and> applyCandidateToJob 9 (StrKey ''p2'') (StrKey ''e2'') (StrKey ''c2'') (StrKey ''j1'') office
       = (Inl (SchemaError ''[candidateId+jobId]''), office)"
proof -
  have s: "schema office = stores_v1" by (simp add: office_def)
  have j: "tbl_get (StrKey ''j1'') (jobs office) = Some job1"
    by (simp add: tbl_get_def office_rows)
  have a: "applications_of (StrKey ''c2'') office = []"
    by (simp add: applications_of_def office_rows)
  from applyCandidateToJob_rejected_by_schema[OF s j, of 9 "StrKey ''p2''" "StrKey ''e2''"
      "StrKey ''c2''"] s j a
  show ?thesis by simp
qed

section \<open>Who writes the timestamps\<close>




section \<open>Listing jobs\<close>

lemma lower_engineer: "toLowerCase ''ENGINEER'' = ''engineer''"
  by code_simp

lemma lower_title: "toLowerCase ''Backend Engineer'' = ''backend engineer''"
  by code_simp

lemma lower_backend: "toLowerCase ''Backend'' = ''backend''"
  by code_simp

lemma lower_cafe:
  "toLowerCase [CHR ''C'', CHR ''A'', CHR ''F'', CHR 0xC9] = [CHR ''c'', CHR ''a'', CHR ''f'', CHR 0xE9]"
  by code_simp

lemma lower_cafe_small:
  "toLowerCase [CHR ''c'', CHR ''a'', CHR ''f'', CHR 0xE9] = [CHR ''c'', CHR ''a'', CHR ''f'', CHR 0xE9]"
  by code_simp

lemma apply_filters_eq: "apply_filters filters q = filter (matches_filters filters) q"
  by (auto simp: apply_filters_def matches_filters_def Let_def list_ex_iff
      split: option.splits intro!: filter_cong)

lemma sorted_job_listing: "sorted (map order (job_listing filters d))"
  by (simp add: job_listing_def apply_filters_eq sorted_filter)

lemma getJobs_eval_first_page:
  "getJobs first_page office =
     Inr (JObject [(''data'', JArray [job1]),
                   (''pagination'', JObject [(''page'', JNum 1), (''pageSize'', JNum 1),
                      (''total'', JNum 1), (''totalPages'', JNum 1), (''hasMore'', JBool False)])])"
  by (simp add: getJobs_def orderBy_order_def indexed_def apply_filters_def paginated_def
      first_page_def or_else_def Let_def search_match_def lower_engineer lower_title
      office_rows)

text \<open>
  Claim C7, as stated, fails in the shape of the page object and in when it is returned.
  The object \<^verbatim>\<open>getJobs\<close> returns has the two properties \<^verbatim>\<open>data\<close> and \<^verbatim>\<open>pagination\<close>;
  \<^verbatim>\<open>total\<close> and the other counters are properties of \<^verbatim>\<open>pagination\<close>, not of the object.
  And a query that gives \<^verbatim>\<open>page: 0\<close> with a page size gets the array, not a page.
\<close>

theorem getJobs_page_shape:
  "property_names (projr (getJobs first_page office)) = [''data'', ''pagination'']
   \<and> property ''total'' (projr (getJobs first_page office)) = None
   \<and> f_page page_zero = Some 0 \<and> f_pageSize page_zero = Some 10
   \<and> getJobs page_zero office = Inr (JArray [job1])"
  by (simp add: getJobs_eval_first_page)
     (simp add: getJobs_def orderBy_order_def indexed_def apply_filters_def paginated_def
      page_zero_def or_else_def Let_def office_rows)

text \<open>
  Claim C7, amended. Under the declared schema: when \<^verbatim>\<open>page\<close> or \<^verbatim>\<open>pageSize\<close> is missing
  or 0, \<^verbatim>\<open>getJobs\<close> returns the whole listing; when both are given and not 0, it returns
  \<^verbatim>\<open>{data, pagination: {page, pageSize, total, totalPages, hasMore}}\<close> where \<^verbatim>\<open>total\<close> is
  the length of the listing, \<^verbatim>\<open>totalPages\<close> the ceiling of \<^verbatim>\<open>total / pageSize\<close>,
  \<^verbatim>\<open>hasMore\<close> says whether \<^verbatim>\<open>(page - 1) * pageSize + pageSize < total\<close>, and \<^verbatim>\<open>data\<close> is
  the slice of the listing from \<^verbatim>\<open>(page - 1) * pageSize\<close> of length \<^verbatim>\<open>pageSize\<close>. The
  listing and every page are ascending in \<^verbatim>\<open>order\<close>, whatever the filter, and the listing
  holds exactly the jobs that match the filter.
\<close>

theorem getJobs_listing:
  assumes "schema d = stores_v1"
  shows "(\<not> paginated filters \<longrightarrow> getJobs filters d = Inr (JArray (job_listing filters d)))
    \<and> (f_page filters = Some p \<and> f_pageSize filters = Some ps \<and> p \<noteq> 0 \<and> ps \<noteq> 0 \<longrightarrow>
         getJobs filters d =
           Inr (JObject
             [(''data'', JArray (take ps (drop ((p - 1) * ps) (job_listing filters d)))),
              (''pagination'', JObject
                 [(''page'', JNum p), (''pageSize'', JNum ps),
                  (''total'', JNum (length (job_listing filters d))),
                  (''totalPages'',
                     JNum (nat \<lceil>real (length (job_listing filters d)) / real ps\<rceil>)),
                  (''hasMore'',
                     JBool ((p - 1) * ps + ps < length (job_listing filters d)))])]))
    \<and> sorted (map order (job_listing filters d))
    \<and> sorted (map order (take ps (drop ((p - 1) * ps) (job_listing filters d))))
    \<and> mset (job_listing filters d) = filter_mset (matches_filters filters) (mset (jobs d))"
proof (intro conjI impI)
  assume "\<not> paginated filters"
  with assms show "getJobs filters d = Inr (JArray (job_listing filters d))"
    by (simp add: getJobs_def orderBy_order_def indexed_def job_listing_def Let_def)
next
  assume "f_page filters = Some p \<and> f_pageSize filters = Some ps \<and> p \<noteq> 0 \<and> ps \<noteq> 0"
  with assms show "getJobs filters d =
           Inr (JObject
             [(''data'', JArray (take ps (drop ((p - 1) * ps) (job_listing filters d)))),
              (''pagination'', JObject
                 [(''page'', JNum p), (''pageSize'', JNum ps),
                  (''total'', JNum (length (job_listing filters d))),
                  (''totalPages'',
                     JNum (nat \<lceil>real (length (job_listing filters d)) / real ps\<rceil>)),
                  (''hasMore'',
                     JBool ((p - 1) * ps + ps < length (job_listing filters d)))])])"
    by (simp add: getJobs_def orderBy_order_def indexed_def job_listing_def Let_def
        paginated_def or_else_def)
next
  show "sorted (map order (job_listing filters d))" by (rule sorted_job_listing)
next
  have "sorted (take ps (drop ((p - 1) * ps) (map order (job_listing filters d))))"
    by (intro sorted_wrt_take sorted_wrt_drop sorted_job_listing)
  then show "sorted (map order (take ps (drop ((p - 1) * ps) (job_listing filters d))))"
    by (simp add: take_map drop_map)
next
  show "mset (job_listing filters d) = filter_mset (matches_filters filters) (mset (jobs d))"
    by (simp add: job_listing_def apply_filters_eq)
qed

theorem getJobs_listing_witness:
  "schema office = stores_v1
   \<and> f_page first_page = Some 1 \<and> f_pageSize first_page = Some 1
   \<and> job_listing first_page office = [job1]
   \<and> getJobs first_page office =
       Inr (JObject [(''data'', JArray [job1]),
                     (''pagination'', JObject [(''page'', JNum 1), (''pageSize'', JNum 1),
                        (''total'', JNum 1), (''totalPages'', JNum 1),
                        (''hasMore'', JBool False)])])
   \<and> \<not> paginated page_zero
   \<and> getJobs page_zero office = Inr (JArray (job_listing page_zero office))
   \<and> schema bistro = stores_v1
   \<and> \<not> paginated cafe_search
   \<and> jobs bistro = [job1, cafe_job]
   \<and> job_listing cafe_search bistro = [cafe_job]
   \<and> getJobs cafe_search bistro = Inr (JArray [cafe_job])"
proof -
  have sb: "schema bistro = stores_v1" by (simp add: bistro_def office_def)
  have jb: "jobs bistro = [job1, cafe_job]" by (simp add: bistro_def)
  have c: "\<not> paginated cafe_search" by (simp add: paginated_def cafe_search_def)
  have lc: "job_listing cafe_search bistro = [cafe_job]"
    by (simp add: job_listing_def apply_filters_def cafe_search_def Let_def search_match_def
        lower_cafe lower_cafe_small lower_title lower_backend toLowerCase_def[of "[]"]
        bistro_def cafe_job_def
        office_rows)
  have s: "schema office = stores_v1" by (simp add: office_def)
  have l: "job_listing first_page office = [job1]"
    by (simp add: job_listing_def apply_filters_def first_page_def Let_def search_match_def
        lower_engineer lower_title office_rows)
  have z: "\<not> paginated page_zero" by (simp add: paginated_def page_zero_def)
  have f: "f_page first_page = Some 1 \<and> f_pageSize first_page = Some 1"
    by (simp add: first_page_def)
  from getJobs_listing[OF s, of first_page 1 1] f l
    getJobs_listing[OF s, of page_zero 1 1] z s
    getJobs_listing[OF sb, of cafe_search 1 1] c lc sb jb
  show ?thesis by simp
qed

section \<open>Reordering jobs\<close>

lemma order_by_board: "sort_key order (jobs board) = [job1, job2]"
  by (simp add: board_def office_rows job2_def)

lemma two_updates:
  "tbl_update True now (ident toJob) (\<lambda>j. j\<lparr>order := order fromJob\<rparr>)
     (tbl_update True now (ident fromJob) (\<lambda>j. j\<lparr>order := order toJob\<rparr>) rows)
   = map (reordered fromJob toJob) rows"
  by (induction rows) (auto simp: tbl_update_eq reordered_def)

text \<open>
  Claim C8. Under the declared schema, with \<open>fromJob\<close> and \<open>toJob\<close> the jobs that
  \<^verbatim>\<open>reorderJobs\<close> finds for \<open>fromOrder\<close> and \<open>toOrder\<close> (the first in \<^verbatim>\<open>order\<close> sequence
  that hold them): when both exist, the two exchange their \<^verbatim>\<open>order\<close> values, and every
  other job and every other field, \<^verbatim>\<open>updatedAt\<close> included, is unchanged; when either does
  not exist, the database is unchanged and the call returns the jobs in order, without an
  error. The writes are in one transaction: whenever the call fails, the database is what
  it was before the call.
\<close>

theorem reorderJobs_swap:
  assumes "schema d = stores_v1"
  shows "(find (\<lambda>j. order j = fromOrder) (sort_key order (jobs d)) = Some fromJob
          \<and> find (\<lambda>j. order j = toOrder) (sort_key order (jobs d)) = Some toJob \<longrightarrow>
            reorderJobs None now fromOrder toOrder d
              = (Inr (sort_key order (map (reordered fromJob toJob) (jobs d))),
                 d\<lparr>jobs := map (reordered fromJob toJob) (jobs d)\<rparr>))
     \<and> (find (\<lambda>j. order j = fromOrder) (sort_key order (jobs d)) = None
          \<or> find (\<lambda>j. order j = toOrder) (sort_key order (jobs d)) = None \<longrightarrow>
            reorderJobs None now fromOrder toOrder d = (Inr (sort_key order (jobs d)), d))
     \<and> (fst (reorderJobs flt now fromOrder toOrder d) = Inl e \<longrightarrow>
            snd (reorderJobs flt now fromOrder toOrder d) = d)"
proof (intro conjI impI)
  assume found: "find (\<lambda>j. order j = fromOrder) (sort_key order (jobs d)) = Some fromJob
          \<and> find (\<lambda>j. order j = toOrder) (sort_key order (jobs d)) = Some toJob"
  then have o: "order fromJob = fromOrder" "order toJob = toOrder"
    by (auto simp: find_Some_iff)
  have "reorderJobs None now fromOrder toOrder d
      = (Inr (sort_key order
                (tbl_update True now (ident toJob) (\<lambda>j. j\<lparr>order := fromOrder\<rparr>)
                   (tbl_update True now (ident fromJob) (\<lambda>j. j\<lparr>order := toOrder\<rparr>) (jobs d)))),
         d\<lparr>jobs := tbl_update True now (ident toJob) (\<lambda>j. j\<lparr>order := fromOrder\<rparr>)
                   (tbl_update True now (ident fromJob) (\<lambda>j. j\<lparr>order := toOrder\<rparr>) (jobs d))\<rparr>)"
    using assms found
    by (simp add: reorderJobs_def transaction_def reorderJobs_body_def orderBy_order_def
        indexed_def Let_def)
  then show "reorderJobs None now fromOrder toOrder d
              = (Inr (sort_key order (map (reordered fromJob toJob) (jobs d))),
                 d\<lparr>jobs := map (reordered fromJob toJob) (jobs d)\<rparr>)"
    using two_updates[of now toJob fromJob "jobs d"] o by simp
next
  assume "find (\<lambda>j. order j = fromOrder) (sort_key order (jobs d)) = None
          \<or> find (\<lambda>j. order j = toOrder) (sort_key order (jobs d)) = None"
  with assms show "reorderJobs None now fromOrder toOrder d = (Inr (sort_key order (jobs d)), d)"
    by (auto simp: reorderJobs_def transaction_def reorderJobs_body_def orderBy_order_def
        indexed_def Let_def split: option.splits)
next
  assume "fst (reorderJobs flt now fromOrder toOrder d) = Inl e"
  then show "snd (reorderJobs flt now fromOrder toOrder d) = d"
    by (auto simp: reorderJobs_def transaction_def split: prod.splits sum.splits)
qed

theorem reorderJobs_swap_witness:
  "schema board = stores_v1
   \<and> find (\<lambda>j. order j = 1) (sort_key order (jobs board)) = Some job1
   \<and> find (\<lambda>j. order j = 2) (sort_key order (jobs board)) = Some job2
   \<and> reorderJobs None 9 1 2 board
       = (Inr [job2\<lparr>order := 1\<rparr>, job1\<lparr>order := 2\<rparr>],
          board_swapped)
   \<and> map updatedAt (jobs board) = map updatedAt (jobs board_swapped)
   \<and> find (\<lambda>j. order j = 7) (sort_key order (jobs board)) = None
   \<and> reorderJobs None 9 7 2 board = (Inr [job1, job2], board)
   \<and> fst (reorderJobs (Some 2) 9 1 2 board) = Inl StorageError
   \<and> snd (reorderJobs (Some 2) 9 1 2 board) = board"
proof -
  have s: "schema board = stores_v1" by (simp add: board_def office_def)
  have f1: "find (\<lambda>j. order j = 1) (sort_key order (jobs board)) = Some job1"
    by (simp add: order_by_board) (simp add: job1_def)
  have f2: "find (\<lambda>j. order j = 2) (sort_key order (jobs board)) = Some job2"
    by (simp add: order_by_board) (simp add: job1_def job2_def)
  have f7: "find (\<lambda>j. order j = 7) (sort_key order (jobs board)) = None"
    by (simp add: order_by_board) (simp add: job1_def job2_def)
  have m: "map (reordered job1 job2) (jobs board)
             = [job1\<lparr>order := 2\<rparr>, job2\<lparr>order := 1\<rparr>]"
    by (simp add: reordered_def board_def office_def job1_def job2_def)
  have so: "sort_key order [job1\<lparr>order := 2\<rparr>, job2\<lparr>order := 1\<rparr>]
             = [job2\<lparr>order := 1\<rparr>, job1\<lparr>order := 2\<rparr>]"
    by simp
  have b: "board\<lparr>jobs := [job1\<lparr>order := 2\<rparr>, job2\<lparr>order := 1\<rparr>]\<rparr> = board_swapped"
    by (simp add: board_def board_swapped_def)
  have e: "fst (reorderJobs (Some 2) 9 1 2 board) = Inl StorageError"
    by (simp add: reorderJobs_def transaction_def reorderJobs_body_def orderBy_order_def
        indexed_def Let_def s f1 f2)
  note sw = reorderJobs_swap[OF s, of 1 job1 2 job2 9 "Some 2" StorageError]
  note no = reorderJobs_swap[OF s, of 7 job1 2 job2 9 "Some 2" StorageError]
  have r1: "reorderJobs None 9 1 2 board
       = (Inr [job2\<lparr>order := 1\<rparr>, job1\<lparr>order := 2\<rparr>],
          board_swapped)"
    using sw f1 f2 by (simp add: m so b)
  have r2: "reorderJobs None 9 7 2 board = (Inr [job1, job2], board)"
    using no f7 by (simp add: order_by_board)
  have r3: "snd (reorderJobs (Some 2) 9 1 2 board) = board"
    using sw e by simp
  have u: "map updatedAt (jobs board) = map updatedAt (jobs board_swapped)"
    by (simp add: board_def board_swapped_def)
  from s f1 f2 r1 u f7 r2 e r3 show ?thesis by blast
qed

section \<open>Stage changes on the timeline\<close>

lemma updateCandidate_changing:
  assumes "cp_stage u = Some s"
    and "Some s \<noteq> map_option stage (tbl_get k (candidates d))"
    and "g \<notin> ident ` set (timelineEvents d)"
  shows "updateCandidate now g k u d =
     (Inr (tbl_get k (tbl_update True now k (apply_candidate_patch u) (candidates d))),
      d\<lparr>candidates := tbl_update True now k (apply_candidate_patch u) (candidates d),
        timelineEvents :=
          insert_sorted (stage_event g k (map_option stage (tbl_get k (candidates d))) s)
            (timelineEvents d)\<rparr>)"
  using assms
  by (cases "tbl_get k (candidates d)")
     (simp_all add: updateCandidate_def Let_def createTimelineEvent_fresh or_else_def
        stage_event_def)

lemma updateCandidate_unchanging:
  assumes "\<not> stage_changing k u d"
  shows "updateCandidate now g k u d =
     (Inr (tbl_get k (tbl_update True now k (apply_candidate_patch u) (candidates d))),
      d\<lparr>candidates := tbl_update True now k (apply_candidate_patch u) (candidates d)\<rparr>)"
  using assms
  by (auto simp: updateCandidate_def Let_def stage_changing_def split: option.splits)

lemma length_filter_insert_sorted:
  "length (filter P (insert_sorted r xs)) = (if P r then 1 else 0) + length (filter P xs)"
  by (induction xs) auto

lemma updateCandidate_count:
  assumes "g \<notin> ident ` set (timelineEvents d)"
  shows "stage_change_count cid (snd (updateCandidate now g k u d))
           = stage_change_count cid d + (if k = cid \<and> stage_changing cid u d then 1 else 0)
         \<and> ident ` set (timelineEvents (snd (updateCandidate now g k u d)))
              \<subseteq> insert g (ident ` set (timelineEvents d))"
proof (cases "stage_changing k u d")
  case False
  then show ?thesis
    by (auto simp: updateCandidate_unchanging stage_change_count_def events_of_def)
next
  case True
  then obtain s where s: "cp_stage u = Some s"
    "Some s \<noteq> map_option stage (tbl_get k (candidates d))"
    by (auto simp: stage_changing_def split: option.splits)
  let ?ev = "stage_event g k (map_option stage (tbl_get k (candidates d))) s"
  have ev: "ev_candidateId ?ev = k" "ev_type ?ev = stage_change" "ident ?ev = g"
    by (simp_all add: stage_event_def createTimelineEvent_factory_def or_else_def)
  have tl: "timelineEvents (snd (updateCandidate now g k u d))
              = insert_sorted ?ev (timelineEvents d)"
    by (simp add: updateCandidate_changing[OF s assms])
  have sub: "ident ` set (timelineEvents (snd (updateCandidate now g k u d)))
              \<subseteq> insert g (ident ` set (timelineEvents d))"
    using ev(3) by (simp add: tl set_insert_sorted)
  have cnt: "stage_change_count cid (snd (updateCandidate now g k u d))
           = stage_change_count cid d + (if k = cid then 1 else 0)"
    using ev(1,2)
    by (simp add: stage_change_count_def events_of_def tl length_filter_insert_sorted)
  from True have "k = cid \<longrightarrow> stage_changing cid u d" by auto
  with cnt sub show ?thesis by auto
qed

text \<open>
  \<^verbatim>\<open>createCandidate\<close> with an event identifier that is new to the timeline: either the
  candidate is stored, under the identifier the factory settled, and the event is added;
  or \<^verbatim>\<open>add\<close> rejects the candidate, its key being falsy and taken, and nothing is written.
\<close>

lemma createCandidate_result:
  assumes "gen_ev \<notin> ident ` set (timelineEvents d)"
  shows "(\<exists>c. createCandidate now gen gen_ev cdata d =
            (Inr c,
             d\<lparr>candidates := tbl_insert c (candidates d),
               timelineEvents :=
                 insert_sorted (submitted_event gen_ev (or_else (cd_id cdata) gen) (stage c))
                   (timelineEvents d)\<rparr>)
            \<and> ident c = or_else (cd_id cdata) gen
            \<and> (truthy_key (or_else (cd_id cdata) gen)
                 \<or> tbl_get (or_else (cd_id cdata) gen) (candidates d) = None))
       \<or> (createCandidate now gen gen_ev cdata d = (Inl ConstraintError, d)
            \<and> \<not> (truthy_key (or_else (cd_id cdata) gen)
                   \<or> tbl_get (or_else (cd_id cdata) gen) (candidates d) = None))"
proof -
  let ?c = "createCandidate_factory gen cdata"
  have id: "ident ?c = or_else (cd_id cdata) gen" by (simp add: createCandidate_factory_def)
  show ?thesis
  proof (cases "tbl_get (ident ?c) (candidates d)")
    case None
    let ?c' = "creating_hook (hooked Candidates) now ?c"
    from None have "(if truthy_key (ident ?c)
              then Inr (tbl_put (hooked Candidates) now ?c (candidates d))
              else tbl_add (hooked Candidates) now ?c (candidates d))
             = Inr (?c', tbl_insert ?c' (candidates d))"
      by (simp add: tbl_put_def tbl_add_def)
    then have "createCandidate now gen gen_ev cdata d =
            (Inr ?c',
             d\<lparr>candidates := tbl_insert ?c' (candidates d),
               timelineEvents :=
                 insert_sorted (submitted_event gen_ev (or_else (cd_id cdata) gen) (stage ?c'))
                   (timelineEvents d)\<rparr>)"
      using assms id
      by (simp add: createCandidate_def Let_def createTimelineEvent_fresh or_else_def
          submitted_event_def ident_creating_hook)
    with None id show ?thesis by (auto simp: ident_creating_hook)
  next
    case (Some x)
    show ?thesis
    proof (cases "truthy_key (ident ?c)")
      case True
      with Some have "(if truthy_key (ident ?c)
              then Inr (tbl_put (hooked Candidates) now ?c (candidates d))
              else tbl_add (hooked Candidates) now ?c (candidates d))
             = Inr (?c, tbl_insert ?c (candidates d))"
        by (simp add: tbl_put_def merge_returned_updating_hook)
      then have "createCandidate now gen gen_ev cdata d =
            (Inr ?c,
             d\<lparr>candidates := tbl_insert ?c (candidates d),
               timelineEvents :=
                 insert_sorted (submitted_event gen_ev (or_else (cd_id cdata) gen) (stage ?c))
                   (timelineEvents d)\<rparr>)"
        using assms id
        by (simp add: createCandidate_def Let_def createTimelineEvent_fresh or_else_def
            submitted_event_def)
      with True id show ?thesis by auto
    next
      case False
      with Some have "createCandidate now gen gen_ev cdata d = (Inl ConstraintError, d)"
        by (simp add: createCandidate_def Let_def tbl_add_def)
      with False Some id show ?thesis by auto
    qed
  qed
qed

lemma createCandidate_count:
  assumes "gen_ev \<notin> ident ` set (timelineEvents d)"
  shows "stage_change_count cid (snd (createCandidate now gen gen_ev cdata d))
           = stage_change_count cid d
             + (if creates cid (CreateCandidate now gen gen_ev cdata) d then 1 else 0)
         \<and> ident ` set (timelineEvents (snd (createCandidate now gen gen_ev cdata d)))
              \<subseteq> insert gen_ev (ident ` set (timelineEvents d))"
proof -
  let ?k = "or_else (cd_id cdata) gen"
  from createCandidate_result[OF assms, of now gen cdata]
  consider (stored) c where "createCandidate now gen gen_ev cdata d =
            (Inr c,
             d\<lparr>candidates := tbl_insert c (candidates d),
               timelineEvents :=
                 insert_sorted (submitted_event gen_ev ?k (stage c)) (timelineEvents d)\<rparr>)"
    | (rejected) "createCandidate now gen gen_ev cdata d = (Inl ConstraintError, d)"
    by blast
  then show ?thesis
  proof cases
    case stored
    let ?ev = "submitted_event gen_ev ?k (stage c)"
    have ev: "ev_candidateId ?ev = ?k" "ev_type ?ev = stage_change" "ident ?ev = gen_ev"
      by (simp_all add: submitted_event_def createTimelineEvent_factory_def or_else_def)
    have tl: "timelineEvents (snd (createCandidate now gen gen_ev cdata d))
                = insert_sorted ?ev (timelineEvents d)"
      by (simp add: stored)
    have cr: "creates cid (CreateCandidate now gen gen_ev cdata) d \<longleftrightarrow> ?k = cid"
      by (simp add: stored)
    have "stage_change_count cid (snd (createCandidate now gen gen_ev cdata d))
            = stage_change_count cid d + (if ?k = cid then 1 else 0)"
      using ev(1,2)
      by (simp add: stage_change_count_def events_of_def tl length_filter_insert_sorted)
    moreover have "ident ` set (timelineEvents (snd (createCandidate now gen gen_ev cdata d)))
              \<subseteq> insert gen_ev (ident ` set (timelineEvents d))"
      using ev(3) by (simp add: tl set_insert_sorted)
    ultimately show ?thesis using cr by simp
  next
    case rejected
    then show ?thesis by auto
  qed
qed

lemma run_op_count:
  assumes "op_event_key c \<notin> ident ` set (timelineEvents d)"
  shows "stage_change_count cid (run_op c d)
           = stage_change_count cid d + (if creates cid c d then 1 else 0)
             + (if changes_stage cid c d then 1 else 0)
         \<and> ident ` set (timelineEvents (run_op c d))
              \<subseteq> insert (op_event_key c) (ident ` set (timelineEvents d))"
proof (cases c)
  case (CreateCandidate now gen gen_ev cdata)
  with assms createCandidate_count[of gen_ev d cid now gen cdata] show ?thesis by simp
next
  case (UpdateCandidate now gen_ev k u)
  with assms updateCandidate_count[of gen_ev d cid now k u] show ?thesis by simp
qed

lemma run_ops_count:
  "distinct (map op_event_key ops) \<Longrightarrow>
   \<forall>c \<in> set ops. op_event_key c \<notin> ident ` set (timelineEvents d) \<Longrightarrow>
   stage_change_count cid (run_ops ops d)
     = stage_change_count cid d + creations cid ops d + stage_changes cid ops d"
proof (induction ops arbitrary: d)
  case Nil
  then show ?case by simp
next
  case (Cons c ops)
  let ?d1 = "run_op c d"
  from Cons.prems have g: "op_event_key c \<notin> ident ` set (timelineEvents d)" by simp
  note step = run_op_count[OF g, of cid]
  have "\<forall>c' \<in> set ops. op_event_key c' \<notin> ident ` set (timelineEvents ?d1)"
  proof
    fix c' assume c': "c' \<in> set ops"
    with Cons.prems have "op_event_key c' \<noteq> op_event_key c"
      "op_event_key c' \<notin> ident ` set (timelineEvents d)"
      by (auto simp: image_iff)
    with step show "op_event_key c' \<notin> ident ` set (timelineEvents ?d1)" by blast
  qed
  with Cons.IH[of ?d1] Cons.prems(1)
  have "stage_change_count cid (run_ops ops ?d1)
          = stage_change_count cid ?d1 + creations cid ops ?d1 + stage_changes cid ops ?d1"
    by simp
  with step show ?case by simp
qed

lemmas candidate_eval = createCandidate_def updateCandidate_def createTimelineEvent_def
  createCandidate_factory_def createTimelineEvent_factory_def apply_candidate_patch_def
  tbl_put_def tbl_add_def tbl_get_def tbl_insert_def tbl_delete_def tbl_update_eq
  creating_hook_def merge_returned_updating_hook or_else_def Let_def stage_changing_def
  stage_change_count_def events_of_def TalentFlowDB_def ada_def to_stage_def rename_def

text \<open>
  Claim C9, as stated, fails. \<^verbatim>\<open>createCandidate\<close> stores with \<^verbatim>\<open>put\<close> when the data has an
  id, and it writes its \<^verbatim>\<open>Application Submitted\<close> event whether or not the id was stored
  already. A candidate created, and created again under its id, is one candidate with two
  \<open>stage_change\<close> events and no update: the number is not 1 plus the number of
  stage-changing updates.
\<close>

theorem createCandidate_again_second_event:
  "map ident (candidates (run_ops recreate_ops TalentFlowDB)) = [StrKey ''c9'']
   \<and> stage_changes (StrKey ''c9'') recreate_ops TalentFlowDB = 0
   \<and> stage_change_count (StrKey ''c9'') (run_ops recreate_ops TalentFlowDB) = 2
   \<and> map ev_title (events_of (StrKey ''c9'') (run_ops recreate_ops TalentFlowDB))
       = [''Application Submitted'', ''Application Submitted'']"
  by (simp add: recreate_ops_def candidate_eval)

text \<open>
  Claim C9, amended. With identifiers generated for the timeline events that differ from
  each other and are new to the timeline, over any sequence of \<^verbatim>\<open>createCandidate\<close> and
  \<^verbatim>\<open>updateCandidate\<close> calls the number of \<open>stage_change\<close> events of a candidate id grows by
  the number of \<^verbatim>\<open>createCandidate\<close> calls that complete under the id plus the number of
  \<^verbatim>\<open>updateCandidate\<close> calls on the id whose patch has a stage other than the stored one at
  the time of the call. So it is 1 plus the number of stage-changing updates for an id that
  had no such event and is created once, and more when the candidate is created again.
  \<^verbatim>\<open>createCandidate\<close> completes unless the id is falsy and taken; it returns the candidate
  as it is stored and adds exactly one event, of type \<open>stage_change\<close>, titled
  \<^verbatim>\<open>Application Submitted\<close>, for the candidate. An update whose patch has a stage other
  than the stored one adds exactly one \<open>stage_change\<close> event whose metadata is the stage
  read before the update and the new stage; an update whose patch has no stage, or the
  stored one, leaves the timeline as it is.
\<close>

theorem stage_change_events:
  assumes "distinct (map op_event_key ops)"
    and "\<forall>c \<in> set ops. op_event_key c \<notin> ident ` set (timelineEvents d)"
    and "g' \<notin> ident ` set (timelineEvents d2)"
  shows "stage_change_count cid (run_ops ops d)
           = stage_change_count cid d + creations cid ops d + stage_changes cid ops d
    \<and> (stage_change_count cid d = 0 \<and> creations cid ops d = 1 \<longrightarrow>
          stage_change_count cid (run_ops ops d) = 1 + stage_changes cid ops d)
    \<and> (truthy_key (or_else (cd_id cdata) gen)
         \<or> tbl_get (or_else (cd_id cdata) gen) (candidates d2) = None \<longrightarrow>
          (\<exists>c ev d'. createCandidate now' gen g' cdata d2 = (Inr c, d')
             \<and> ident c = or_else (cd_id cdata) gen
             \<and> tbl_get (ident c) (candidates d') = Some c
             \<and> mset (timelineEvents d') = add_mset ev (mset (timelineEvents d2))
             \<and> ev_candidateId ev = ident c \<and> ev_type ev = stage_change
             \<and> ev_title ev = ''Application Submitted''
             \<and> ev_metadata ev = MdStage (stage c)))
    \<and> (cp_stage u = Some s \<and> Some s \<noteq> map_option stage (tbl_get k (candidates d2)) \<longrightarrow>
          (\<exists>r ev d'. updateCandidate now' g' k u d2 = (Inr r, d')
             \<and> mset (timelineEvents d') = add_mset ev (mset (timelineEvents d2))
             \<and> ev_candidateId ev = k \<and> ev_type ev = stage_change
             \<and> ev_metadata ev
                 = MdStageChange (map_option stage (tbl_get k (candidates d2))) s))
    \<and> (cp_stage u = None \<or> cp_stage u = map_option stage (tbl_get k (candidates d2)) \<longrightarrow>
          (\<exists>r d'. updateCandidate now' g' k u d2 = (Inr r, d')
             \<and> timelineEvents d' = timelineEvents d2))"
proof (intro conjI impI)
  show count: "stage_change_count cid (run_ops ops d)
           = stage_change_count cid d + creations cid ops d + stage_changes cid ops d"
    by (rule run_ops_count[OF assms(1,2)])
  assume "stage_change_count cid d = 0 \<and> creations cid ops d = 1"
  with count show "stage_change_count cid (run_ops ops d) = 1 + stage_changes cid ops d"
    by simp
next
  let ?k = "or_else (cd_id cdata) gen"
  assume ok: "truthy_key ?k \<or> tbl_get ?k (candidates d2) = None"
  with createCandidate_result[OF assms(3), of now' gen cdata]
  obtain c where c: "createCandidate now' gen g' cdata d2 =
            (Inr c,
             d2\<lparr>candidates := tbl_insert c (candidates d2),
                timelineEvents :=
                  insert_sorted (submitted_event g' ?k (stage c)) (timelineEvents d2)\<rparr>)"
    "ident c = ?k"
    by blast
  let ?ev = "submitted_event g' ?k (stage c)"
  let ?d' = "d2\<lparr>candidates := tbl_insert c (candidates d2),
                timelineEvents := insert_sorted ?ev (timelineEvents d2)\<rparr>"
  have ev: "ev_candidateId ?ev = ident c" "ev_type ?ev = stage_change"
    "ev_title ?ev = ''Application Submitted''" "ev_metadata ?ev = MdStage (stage c)"
    using c(2) by (simp_all add: submitted_event_def createTimelineEvent_factory_def)
  have "tbl_get (ident c) (candidates ?d') = Some c" by (simp add: tbl_get_tbl_insert)
  with c ev show "\<exists>c ev d'. createCandidate now' gen g' cdata d2 = (Inr c, d')
             \<and> ident c = ?k
             \<and> tbl_get (ident c) (candidates d') = Some c
             \<and> mset (timelineEvents d') = add_mset ev (mset (timelineEvents d2))
             \<and> ev_candidateId ev = ident c \<and> ev_type ev = stage_change
             \<and> ev_title ev = ''Application Submitted''
             \<and> ev_metadata ev = MdStage (stage c)"
    by (intro exI[of _ c] exI[of _ ?ev] exI[of _ ?d']) (simp add: mset_insert_sorted)
next
  assume a: "cp_stage u = Some s \<and> Some s \<noteq> map_option stage (tbl_get k (candidates d2))"
  let ?ev = "stage_event g' k (map_option stage (tbl_get k (candidates d2))) s"
  have ev: "ev_candidateId ?ev = k" "ev_type ?ev = stage_change"
    "ev_metadata ?ev = MdStageChange (map_option stage (tbl_get k (candidates d2))) s"
    by (simp_all add: stage_event_def createTimelineEvent_factory_def)
  from a assms(3) have "updateCandidate now' g' k u d2 =
     (Inr (tbl_get k (tbl_update True now' k (apply_candidate_patch u) (candidates d2))),
      d2\<lparr>candidates := tbl_update True now' k (apply_candidate_patch u) (candidates d2),
         timelineEvents := insert_sorted ?ev (timelineEvents d2)\<rparr>)"
    by (intro updateCandidate_changing) auto
  with ev show "\<exists>r ev d'. updateCandidate now' g' k u d2 = (Inr r, d')
             \<and> mset (timelineEvents d') = add_mset ev (mset (timelineEvents d2))
             \<and> ev_candidateId ev = k \<and> ev_type ev = stage_change
             \<and> ev_metadata ev
                 = MdStageChange (map_option stage (tbl_get k (candidates d2))) s"
    by (intro exI[of _ "tbl_get k (tbl_update True now' k (apply_candidate_patch u) (candidates d2))"]
          exI[of _ ?ev]
          exI[of _ "d2\<lparr>candidates := tbl_update True now' k (apply_candidate_patch u) (candidates d2),
                      timelineEvents := insert_sorted ?ev (timelineEvents d2)\<rparr>"])
       (simp add: mset_insert_sorted)
next
  assume "cp_stage u = None \<or> cp_stage u = map_option stage (tbl_get k (candidates d2))"
  then have "\<not> stage_changing k u d2"
    by (auto simp: stage_changing_def split: option.splits)
  from updateCandidate_unchanging[OF this, of now' g']
  show "\<exists>r d'. updateCandidate now' g' k u d2 = (Inr r, d')
             \<and> timelineEvents d' = timelineEvents d2"
    by simp
qed

lemma ada_counts:
  "creations (StrKey ''c9'') ada_ops TalentFlowDB = 1"
  "stage_changes (StrKey ''c9'') ada_ops TalentFlowDB = 2"
  by (simp_all add: ada_ops_def candidate_eval)

lemma ada_first_update:
  "map ev_metadata (events_of (StrKey ''c9'') (run_ops (take 2 ada_ops) TalentFlowDB))
     = [MdStage applied, MdStageChange (Some applied) screen]"
  by (simp add: ada_ops_def candidate_eval)

lemma recreate_counts:
  "creations (StrKey ''c9'') recreate_ops TalentFlowDB = 2"
  by (simp add: recreate_ops_def candidate_eval)

theorem stage_change_events_witness:
  "distinct (map op_event_key ada_ops)
   \<and> timelineEvents TalentFlowDB = []
   \<and> stage_change_count (StrKey ''c9'') TalentFlowDB = 0
   \<and> creations (StrKey ''c9'') ada_ops TalentFlowDB = 1
   \<and> stage_changes (StrKey ''c9'') ada_ops TalentFlowDB = 2
   \<and> stage_change_count (StrKey ''c9'') (run_ops ada_ops TalentFlowDB) = 3
   \<and> map ev_metadata (events_of (StrKey ''c9'') (run_ops (take 2 ada_ops) TalentFlowDB))
       = [MdStage applied, MdStageChange (Some applied) screen]
   \<and> distinct (map op_event_key recreate_ops)
   \<and> creations (StrKey ''c9'') recreate_ops TalentFlowDB = 2
   \<and> stage_change_count (StrKey ''c9'') (run_ops recreate_ops TalentFlowDB)
       = 2 + stage_changes (StrKey ''c9'') recreate_ops TalentFlowDB
   \<and> truthy_key (or_else (cd_id ada) (StrKey ''c9''))
   \<and> (\<exists>c ev d'. createCandidate 7 (StrKey ''c9'') (StrKey ''e7'') ada office = (Inr c, d')
          \<and> ident c = StrKey ''c9''
          \<and> tbl_get (ident c) (candidates d') = Some c
          \<and> mset (timelineEvents d') = add_mset ev (mset (timelineEvents office))
          \<and> ev_candidateId ev = ident c \<and> ev_type ev = stage_change
          \<and> ev_title ev = ''Application Submitted''
          \<and> ev_metadata ev = MdStage (stage c))
   \<and> cp_stage (to_stage screen) = Some screen
   \<and> map_option stage (tbl_get (StrKey ''c1'') (candidates office)) = Some applied
   \<and> (\<exists>r ev d'. updateCandidate 7 (StrKey ''e7'') (StrKey ''c1'') (to_stage screen) office
                    = (Inr r, d')
          \<and> mset (timelineEvents d') = add_mset ev (mset (timelineEvents office))
          \<and> ev_candidateId ev = StrKey ''c1'' \<and> ev_type ev = stage_change
          \<and> ev_metadata ev = MdStageChange (Some applied) screen)
   \<and> cp_stage (rename ''Ada L.'') = None
   \<and> (\<exists>r d'. updateCandidate 7 (StrKey ''e7'') (StrKey ''c1'') (rename ''Ada L.'') office
                 = (Inr r, d')
          \<and> timelineEvents d' = timelineEvents office)"
proof -
  have cid: "or_else (cd_id ada) (StrKey ''c9'') = StrKey ''c9''"
    by (simp add: ada_def or_else_def)
  have t: "truthy_key (or_else (cd_id ada) (StrKey ''c9''))" by (simp add: cid)
  have h1: "distinct (map op_event_key ada_ops)" by (simp add: ada_ops_def)
  have r1: "distinct (map op_event_key recreate_ops)" by (simp add: recreate_ops_def)
  have e: "timelineEvents TalentFlowDB = []" by (simp add: TalentFlowDB_def)
  then have h2: "\<forall>c \<in> set ada_ops. op_event_key c \<notin> ident ` set (timelineEvents TalentFlowDB)"
    and r2: "\<forall>c \<in> set recreate_ops. op_event_key c \<notin> ident ` set (timelineEvents TalentFlowDB)"
    by simp_all
  have z: "stage_change_count (StrKey ''c9'') TalentFlowDB = 0"
    by (simp add: stage_change_count_def events_of_def TalentFlowDB_def)
  have h3: "StrKey ''e7'' \<notin> ident ` set (timelineEvents office)"
    by (simp add: office_rows)
  have s1: "cp_stage (to_stage screen) = Some screen" by (simp add: to_stage_def)
  have s2: "map_option stage (tbl_get (StrKey ''c1'') (candidates office)) = Some applied"
    by (simp add: tbl_get_def office_rows)
  have s3: "cp_stage (rename ''Ada L.'') = None" by (simp add: rename_def)
  note change = stage_change_events[OF h1 h2 h3, of "StrKey ''c9''" ada "StrKey ''c9''" 7
      "to_stage screen" screen "StrKey ''c1''"]
  note keep = stage_change_events[OF h1 h2 h3, of "StrKey ''c9''" ada "StrKey ''c9''" 7
      "rename ''Ada L.''" screen "StrKey ''c1''"]
  note again = stage_change_events[OF r1 r2 h3, of "StrKey ''c9''" ada "StrKey ''c9''" 7
      "to_stage screen" screen "StrKey ''c1''"]
  from change z ada_counts
  have c: "stage_change_count (StrKey ''c9'') (run_ops ada_ops TalentFlowDB) = 3"
    by simp
  from again z recreate_counts
  have c2: "stage_change_count (StrKey ''c9'') (run_ops recreate_ops TalentFlowDB)
       = 2 + stage_changes (StrKey ''c9'') recreate_ops TalentFlowDB"
    by simp
  have u0: "\<exists>c ev d'. createCandidate 7 (StrKey ''c9'') (StrKey ''e7'') ada office = (Inr c, d')
          \<and> ident c = StrKey ''c9''
          \<and> tbl_get (ident c) (candidates d') = Some c
          \<and> mset (timelineEvents d') = add_mset ev (mset (timelineEvents office))
          \<and> ev_candidateId ev = ident c \<and> ev_type ev = stage_change
          \<and> ev_title ev = ''Application Submitted''
          \<and> ev_metadata ev = MdStage (stage c)"
    using change t by (simp add: cid)
  have u1: "\<exists>r ev d'. updateCandidate 7 (StrKey ''e7'') (StrKey ''c1'') (to_stage screen) office
                    = (Inr r, d')
          \<and> mset (timelineEvents d') = add_mset ev (mset (timelineEvents office))
          \<and> ev_candidateId ev = StrKey ''c1'' \<and> ev_type ev = stage_change
          \<and> ev_metadata ev = MdStageChange (Some applied) screen"
    using change s1 s2 by simp
  have u2: "\<exists>r d'. updateCandidate 7 (StrKey ''e7'') (StrKey ''c1'') (rename ''Ada L.'') office
                 = (Inr r, d')
          \<and> timelineEvents d' = timelineEvents office"
    using keep s3 by simp
  from h1 e z ada_counts c ada_first_update r1 recreate_counts c2 t u0 s1 s2 u1 s3 u2
  show ?thesis by simp
qed

section \<open>Updating a candidate that does not exist\<close>

text \<open>
  Claim C10. When \<open>cid\<close> resolves to no candidate and the patch sets a stage,
  \<^verbatim>\<open>updateCandidate\<close> raises nothing: it returns \<^verbatim>\<open>undefined\<close>, leaves the candidates
  table as it was, and adds one \<open>stage_change\<close> event to the timeline whose
  \<^verbatim>\<open>candidateId\<close> is \<open>cid\<close> and whose metadata has no \<^verbatim>\<open>fromStage\<close>. The identifier
  generated for the event is one the timeline does not hold yet.
\<close>

theorem updateCandidate_missing_candidate:
  assumes "tbl_get cid (candidates d) = None"
    and "cp_stage updates = Some s"
    and "gen_ev \<notin> ident ` set (timelineEvents d)"
  shows "\<exists>ev d'. updateCandidate now gen_ev cid updates d = (Inr None, d')
           \<and> candidates d' = candidates d
           \<and> mset (timelineEvents d') = add_mset ev (mset (timelineEvents d))
           \<and> ev_candidateId ev = cid \<and> ev_type ev = stage_change
           \<and> ev_metadata ev = MdStageChange None s"
proof -
  from assms(1) have absent: "cid \<notin> ident ` set (candidates d)"
    by (simp add: tbl_get_None_iff)
  let ?ed = "\<lparr>ed_id = None, ed_candidateId = cid, ed_type = stage_change,
              ed_title = ''Stage Changed to '' @ stage_str s,
              ed_description = ''Candidate moved from '' @ ''undefined'' @ '' to '' @ stage_str s,
              ed_metadata = MdStageChange None s\<rparr>"
  let ?ev = "createTimelineEvent_factory gen_ev ?ed"
  let ?d' = "d\<lparr>timelineEvents := insert_sorted ?ev (timelineEvents d)\<rparr>"
  have "updateCandidate now gen_ev cid updates d = (Inr None, ?d')"
    using assms absent
    by (simp add: updateCandidate_def Let_def tbl_update_absent createTimelineEvent_fresh or_else_def)
  moreover have "mset (timelineEvents ?d') = add_mset ?ev (mset (timelineEvents d))"
    by (simp add: mset_insert_sorted)
  moreover have "ev_candidateId ?ev = cid \<and> ev_type ?ev = stage_change
      \<and> ev_metadata ?ev = MdStageChange None s"
    by (simp add: createTimelineEvent_factory_def)
  ultimately show ?thesis by (intro exI[of _ ?ev] exI[of _ ?d']) simp
qed

theorem updateCandidate_missing_candidate_witness:
  "tbl_get (StrKey ''ghost'') (candidates TalentFlowDB) = None
   \<and> cp_stage ghost_patch = Some screen
   \<and> StrKey ''e1'' \<notin> ident ` set (timelineEvents TalentFlowDB)
   \<and> (\<exists>ev d'. updateCandidate 5 (StrKey ''e1'') (StrKey ''ghost'') ghost_patch TalentFlowDB
                  = (Inr None, d')
           \<and> candidates d' = candidates TalentFlowDB
           \<and> mset (timelineEvents d') = add_mset ev (mset (timelineEvents TalentFlowDB))
           \<and> ev_candidateId ev = StrKey ''ghost'' \<and> ev_type ev = stage_change
           \<and> ev_metadata ev = MdStageChange None screen)"
proof -
  have h1: "tbl_get (StrKey ''ghost'') (candidates TalentFlowDB) = None"
    by (simp add: tbl_get_def TalentFlowDB_def)
  have h2: "cp_stage ghost_patch = Some screen" by (simp add: ghost_patch_def)
  have h3: "StrKey ''e1'' \<notin> ident ` set (timelineEvents TalentFlowDB)"
    by (simp add: TalentFlowDB_def)
  from updateCandidate_missing_candidate[OF h1 h2 h3, of 5] h1 h2 h3 show ?thesis by blast
qed

end
